theory Spec2Isabelle
  imports Main "HOL-Library.Word"
begin

unbundle bit_operations_syntax

section \<open>The SX1278 register driver of lora.c\<close>

text \<open>
  The program talks to an SX1278 LoRa transceiver over SPI, through the bcm2835 library.
  Its two primitives, \<open>read_reg\<close> and \<open>write_reg\<close>, each perform one two-byte
  full-duplex transfer; \<open>diagnose\<close> and \<open>main\<close> are straight-line sequences of them.

  The library and the chip are outside the program. They are taken as a parameter: a record
  of the library entry points the program depends on, over an arbitrary state type \<open>'s\<close>
  of everything behind the library (bus, pins and chip). Everything the program does to the
  outside is recorded, in order, in a trace.
\<close>

subsection \<open>Bytes and buffers\<close>

text \<open>
  \<open>uint8_t\<close> and the elements of the \<open>char\<close> buffers are 8-bit words: the conversions
  between the two keep the bit pattern. \<open>char tbuf[2]\<close> and \<open>char rbuf[2]\<close> are pairs of
  bytes; \<open>buf[0]\<close> is \<open>fst\<close> and \<open>buf[1]\<close> is \<open>snd\<close>.
\<close>

type_synonym byte = "8 word"
type_synonym buf2 = "byte \<times> byte"

subsection \<open>Device modes and register addresses (the defines of lines 139 to 185)\<close>

definition FSK_SLEEP :: byte where "FSK_SLEEP = 0x08"
definition FSK_CAD :: byte where "FSK_CAD = 0x0F"
definition LORA_SLEEP :: byte where "LORA_SLEEP = 0x88"
definition LORA_STANDBY :: byte where "LORA_STANDBY = 0x89"
definition LORA_TX :: byte where "LORA_TX = 0x8B"
definition LORA_RX_CONT :: byte where "LORA_RX_CONT = 0x8D"
definition LORA_RX_SINGLE :: byte where "LORA_RX_SINGLE = 0x8E"
definition LORA_CAD :: byte where "LORA_CAD = 0x8F"

definition REG_FIFO :: byte where "REG_FIFO = 0x00"
definition REG_OP_MODE :: byte where "REG_OP_MODE = 0x01"
definition REG_RF_FREQ_MSB_MSB :: byte where "REG_RF_FREQ_MSB_MSB = 0x06"
definition REG_RF_FREQ_MSB :: byte where "REG_RF_FREQ_MSB = 0x07"
definition REG_RF_FREQ_LSB :: byte where "REG_RF_FREQ_LSB = 0x08"
definition REG_PA_CONFIG :: byte where "REG_PA_CONFIG = 0x09"
definition REG_PA_RAMP :: byte where "REG_PA_RAMP = 0x0A"
definition REG_OCP :: byte where "REG_OCP = 0x0B"
definition REG_LNA :: byte where "REG_LNA = 0x0C"
definition REG_FIFO_ADDR_PTR :: byte where "REG_FIFO_ADDR_PTR = 0x0D"
definition REG_FIFO_TX_BASE_ADDR :: byte where "REG_FIFO_TX_BASE_ADDR = 0x0E"
definition REG_FIFO_RX_BASE_ADDR :: byte where "REG_FIFO_RX_BASE_ADDR = 0x0F"
definition REG_FIFO_RX_CURRENT_ADDR :: byte where "REG_FIFO_RX_CURRENT_ADDR = 0x10"
definition REG_IRQ_FLAGS_MASK :: byte where "REG_IRQ_FLAGS_MASK = 0x11"
definition REG_IRQ_FLAGS :: byte where "REG_IRQ_FLAGS = 0x12"
definition REG_RX_NUM_BYTES :: byte where "REG_RX_NUM_BYTES = 0x13"
definition REG_RX_PACKET_COUNT_MSB :: byte where "REG_RX_PACKET_COUNT_MSB = 0x16"
definition REG_RX_PACKET_COUNT_LSB :: byte where "REG_RX_PACKET_COUNT_LSB = 0x17"
definition REG_MODEM_STAT :: byte where "REG_MODEM_STAT = 0x18"
definition REG_PACKET_SNR :: byte where "REG_PACKET_SNR = 0x19"
definition REG_PACKET_RSSI :: byte where "REG_PACKET_RSSI = 0x1A"
definition REG_CURRENT_RSSI :: byte where "REG_CURRENT_RSSI = 0x1B"
definition REG_HOP_CHANNEL :: byte where "REG_HOP_CHANNEL = 0x1C"
definition REG_MODEM_CONFIG1 :: byte where "REG_MODEM_CONFIG1 = 0x1D"
definition REG_MODEM_CONFIG2 :: byte where "REG_MODEM_CONFIG2 = 0x1E"
definition REG_PREAMBLE_LEN_MSB :: byte where "REG_PREAMBLE_LEN_MSB = 0x20"
definition REG_PREAMBLE_LEN_LSB :: byte where "REG_PREAMBLE_LEN_LSB = 0x21"
definition REG_PAYLOAD_LEN :: byte where "REG_PAYLOAD_LEN = 0x22"
definition REG_MAX_PAYLOAD_LEN :: byte where "REG_MAX_PAYLOAD_LEN = 0x23"
definition REG_HOP_PERIOD :: byte where "REG_HOP_PERIOD = 0x24"
definition REG_MODEM_CONFIG3 :: byte where "REG_MODEM_CONFIG3 = 0x26"
definition REG_DETECT_OPTIMIZE :: byte where "REG_DETECT_OPTIMIZE = 0x31"
definition REG_DETECT_THRESH :: byte where "REG_DETECT_THRESH = 0x37"
definition REG_SYNC_WORD :: byte where "REG_SYNC_WORD = 0x39"

definition FIFO_TX_BASE_ADDR :: byte where "FIFO_TX_BASE_ADDR = 0x80"

text \<open>Every register address the file defines, in the order of lines 149 to 182.\<close>

definition register_map :: "byte list" where
  "register_map =
    [REG_FIFO, REG_OP_MODE, REG_RF_FREQ_MSB_MSB, REG_RF_FREQ_MSB, REG_RF_FREQ_LSB,
     REG_PA_CONFIG, REG_PA_RAMP, REG_OCP, REG_LNA, REG_FIFO_ADDR_PTR,
     REG_FIFO_TX_BASE_ADDR, REG_FIFO_RX_BASE_ADDR, REG_FIFO_RX_CURRENT_ADDR,
     REG_IRQ_FLAGS_MASK, REG_IRQ_FLAGS, REG_RX_NUM_BYTES, REG_RX_PACKET_COUNT_MSB,
     REG_RX_PACKET_COUNT_LSB, REG_MODEM_STAT, REG_PACKET_SNR, REG_PACKET_RSSI,
     REG_CURRENT_RSSI, REG_HOP_CHANNEL, REG_MODEM_CONFIG1, REG_MODEM_CONFIG2,
     REG_PREAMBLE_LEN_MSB, REG_PREAMBLE_LEN_LSB, REG_PAYLOAD_LEN, REG_MAX_PAYLOAD_LEN,
     REG_HOP_PERIOD, REG_MODEM_CONFIG3, REG_DETECT_OPTIMIZE, REG_DETECT_THRESH,
     REG_SYNC_WORD]"

subsection \<open>The library boundary\<close>

text \<open>
  The calls of \<open>main\<close> that return nothing, each with the fixed arguments of its one call
  site (lines 214 to 240, 278 and 279).
\<close>

datatype lib_call =
    Spi_setBitOrder | Spi_setDataMode | Spi_setClockDivider | Spi_chipSelect
  | Spi_setChipSelectPolarity | Gpio_fsel | Gpio_set | Spi_end | Close

text \<open>
  What the program needs of the library: whether \<open>bcm2835_init\<close> and
  \<open>bcm2835_spi_begin\<close> succeed, the effect of each configuration call on the outside,
  and \<open>bcm2835_spi_transfernb\<close>. The last takes the outside state, the transmit buffer,
  the receive buffer as the caller initialised it and the length, and gives the receive
  buffer after the call and the new outside state. Nothing is assumed about any of them.
\<close>

record 's bcm2835 =
  init_result :: bool
  spi_begin_result :: bool
  configure :: "lib_call \<Rightarrow> 's \<Rightarrow> 's"
  transfernb :: "'s \<Rightarrow> buf2 \<Rightarrow> buf2 \<Rightarrow> nat \<Rightarrow> buf2 \<times> 's"

text \<open>
  The trace: one event per library call, per line printed and per completed delay loop.
  \<open>Transfer tbuf len rbuf\<close> holds the bytes sent, the length passed, and the receive
  buffer after the call. \<open>Printf\<close> holds the format string and the arguments as passed,
  unformatted. \<open>Spun i\<close> is logged when the delay loop has ended, with the final value of
  its counter, which started at 0 and went up by one each round.
\<close>

datatype event =
    Call lib_call
  | Transfer buf2 nat buf2
  | Printf string "byte list"
  | Spun int

record 's world =
  device :: 's
  trace :: "event list"

definition call :: "'s bcm2835 \<Rightarrow> lib_call \<Rightarrow> 's world \<Rightarrow> 's world" where
  "call hw c w = w\<lparr>device := configure hw c (device w), trace := trace w @ [Call c]\<rparr>"

definition printf :: "string \<Rightarrow> byte list \<Rightarrow> 's world \<Rightarrow> 's world" where
  "printf fmt args w = w\<lparr>trace := trace w @ [Printf fmt args]\<rparr>"

definition bcm2835_spi_transfernb ::
  "'s bcm2835 \<Rightarrow> buf2 \<Rightarrow> buf2 \<Rightarrow> nat \<Rightarrow> 's world \<Rightarrow> buf2 \<times> 's world" where
  "bcm2835_spi_transfernb hw tbuf rbuf len w =
     (let (rbuf', d) = transfernb hw (device w) tbuf rbuf len
      in (rbuf', w\<lparr>device := d, trace := trace w @ [Transfer tbuf len rbuf']\<rparr>))"

subsection \<open>The helper functions (lines 289 to 345)\<close>

text \<open>\<open>sizeof(tbuf)\<close> is 2 in both helpers: \<open>tbuf\<close> is an array of two \<open>char\<close>.\<close>

definition read_reg :: "'s bcm2835 \<Rightarrow> byte \<Rightarrow> 's world \<Rightarrow> byte \<times> 's world" where
  "read_reg hw addr w =
     (let tbuf = (addr, 0x00);
          rbuf = (0x00, 0x00);
          (rbuf, w) = bcm2835_spi_transfernb hw tbuf rbuf 2 w;
          w = printf ''Read value 0x%02X from register 0x%02X.\<newline>'' [snd rbuf, addr] w
      in (snd rbuf, w))"

definition write_reg :: "'s bcm2835 \<Rightarrow> byte \<Rightarrow> byte \<Rightarrow> 's world \<Rightarrow> byte \<times> 's world" where
  "write_reg hw addr data w =
     (let tbuf = (addr OR 0x80, data);
          rbuf = (0x00, 0x00);
          (rbuf, w) = bcm2835_spi_transfernb hw tbuf rbuf 2 w;
          w = printf ''Wrote value 0x%02X to register 0x%02X.\<newline>'' [data, addr] w
      in (snd rbuf, w))"

definition diagnose :: "'s bcm2835 \<Rightarrow> 's world \<Rightarrow> 's world" where
  "diagnose hw w =
     (let w = snd (read_reg hw REG_OP_MODE w);
          w = snd (read_reg hw REG_RF_FREQ_MSB_MSB w);
          w = snd (read_reg hw REG_RF_FREQ_MSB w);
          w = snd (read_reg hw REG_RF_FREQ_LSB w);
          w = snd (read_reg hw REG_PA_CONFIG w);
          w = snd (read_reg hw REG_PA_RAMP w);
          w = snd (read_reg hw REG_OCP w);
          w = snd (read_reg hw REG_LNA w);
          w = snd (read_reg hw REG_FIFO_ADDR_PTR w);
          w = snd (read_reg hw REG_FIFO_TX_BASE_ADDR w);
          w = snd (read_reg hw REG_FIFO_RX_BASE_ADDR w);
          w = snd (read_reg hw REG_FIFO_RX_CURRENT_ADDR w);
          w = snd (read_reg hw REG_IRQ_FLAGS_MASK w);
          w = snd (read_reg hw REG_IRQ_FLAGS w);
          w = snd (read_reg hw REG_RX_NUM_BYTES w);
          w = snd (read_reg hw REG_RX_PACKET_COUNT_MSB w);
          w = snd (read_reg hw REG_RX_PACKET_COUNT_LSB w);
          w = snd (read_reg hw REG_MODEM_STAT w);
          w = snd (read_reg hw REG_PACKET_SNR w);
          w = snd (read_reg hw REG_PACKET_RSSI w);
          w = snd (read_reg hw REG_CURRENT_RSSI w);
          w = snd (read_reg hw REG_HOP_CHANNEL w);
          w = snd (read_reg hw REG_MODEM_CONFIG1 w);
          w = snd (read_reg hw REG_MODEM_CONFIG2 w);
          w = snd (read_reg hw REG_PREAMBLE_LEN_MSB w);
          w = snd (read_reg hw REG_PREAMBLE_LEN_LSB w);
          w = snd (read_reg hw REG_PAYLOAD_LEN w);
          w = snd (read_reg hw REG_MAX_PAYLOAD_LEN w);
          w = snd (read_reg hw REG_HOP_PERIOD w);
          w = snd (read_reg hw REG_MODEM_CONFIG3 w);
          w = snd (read_reg hw REG_DETECT_OPTIMIZE w);
          w = snd (read_reg hw REG_DETECT_THRESH w);
          w = snd (read_reg hw REG_SYNC_WORD w)
      in w)"

subsection \<open>The delay loop and main (lines 197 to 282)\<close>

text \<open>
  \<open>while(i<5000000){ i++; }\<close> on the \<open>int\<close> counter \<open>i\<close>. The counter stays below
  \<open>2^31\<close>, so no wrap-around is involved and an unbounded integer models it.
\<close>

function busy_wait :: "int \<Rightarrow> int" where
  "busy_wait i = (if i < 5000000 then busy_wait (i + 1) else i)"
  by pat_completeness auto
termination
  by (relation "measure (\<lambda>i. nat (5000000 - i))") auto

declare busy_wait.simps [simp del]

text \<open>
  \<open>main\<close>, from the outside state at program start. The result is the exit status and
  the world at exit.
\<close>

definition main :: "'s bcm2835 \<Rightarrow> 's \<Rightarrow> int \<times> 's world" where
  "main hw s0 =
     (let w = \<lparr>device = s0, trace = []\<rparr> in
      if \<not> init_result hw then
        (1, printf ''bcm2835_init failed.  Must run as root.\<newline>'' [] w)
      else if \<not> spi_begin_result hw then
        (1, printf ''bcm2835_spi_begin failed.  Must run as root.\<newline>'' [] w)
      else
        let w = call hw Spi_setBitOrder w;
            w = call hw Spi_setDataMode w;
            w = call hw Spi_setClockDivider w;
            w = call hw Spi_chipSelect w;
            w = call hw Spi_setChipSelectPolarity w;
            w = call hw Gpio_fsel w;
            w = call hw Gpio_set w;
            (bootmode, w) = read_reg hw REG_OP_MODE w;
            w = (if bootmode AND 0x80 = 0x00
                 then snd (write_reg hw REG_OP_MODE FSK_SLEEP w) else w);
            w = snd (write_reg hw REG_OP_MODE LORA_SLEEP w);
            w = snd (write_reg hw REG_OP_MODE LORA_STANDBY w);
            (mode, w) = read_reg hw REG_OP_MODE w
        in if mode \<noteq> LORA_STANDBY then
             (1, printf ''There was a problem entering LORA_STANDBY.\<newline>'' [] w)
           else
             let w = printf ''Device has entered LORA_STANDBY.\<newline>'' [] w;
                 w = diagnose hw w;
                 w = snd (read_reg hw REG_FIFO_ADDR_PTR w);
                 w = snd (write_reg hw REG_FIFO_ADDR_PTR FIFO_TX_BASE_ADDR w);
                 w = snd (write_reg hw REG_FIFO 0xCC w);
                 w = snd (write_reg hw REG_OP_MODE LORA_TX w);
                 i = busy_wait 0;
                 w = w\<lparr>trace := trace w @ [Spun i]\<rparr>;
                 w = snd (read_reg hw REG_IRQ_FLAGS w);
                 w = snd (read_reg hw REG_OP_MODE w);
                 w = call hw Spi_end w;
                 w = call hw Close w
             in (0, w))"

subsection \<open>Observations on a trace\<close>

text \<open>
  \<open>calls\<close> lists the register accesses of a trace in order: for each transfer, the
  bytes sent and the value the helper handed back to its caller (the second byte received).
  \<open>actions\<close> lists what the program did, with everything it received left out: each
  transfer with the bytes sent and the length, and each completed delay loop.
\<close>

fun call_of :: "event \<Rightarrow> (buf2 \<times> byte) list" where
  "call_of (Transfer tbuf len rbuf) = [(tbuf, snd rbuf)]"
| "call_of _ = []"

definition calls :: "event list \<Rightarrow> (buf2 \<times> byte) list" where
  "calls tr = concat (map call_of tr)"

datatype action = Exchange buf2 nat | Spin int

fun action_of :: "event \<Rightarrow> action list" where
  "action_of (Transfer tbuf len rbuf) = [Exchange tbuf len]"
| "action_of (Spun i) = [Spin i]"
| "action_of _ = []"

definition actions :: "event list \<Rightarrow> action list" where
  "actions tr = concat (map action_of tr)"

text \<open>
  The two shapes of transfer the helpers issue: the one \<open>read_reg a\<close> sends and the one
  \<open>write_reg a d\<close> sends.
\<close>

abbreviation Rd :: "byte \<Rightarrow> action" where
  "Rd a \<equiv> Exchange (a, 0x00) 2"

abbreviation Wr :: "byte \<Rightarrow> byte \<Rightarrow> action" where
  "Wr a d \<equiv> Exchange (a OR 0x80, d) 2"

subsection \<open>A mock peripheral\<close>

text \<open>
  The peripheral as the header comment of lora.c reports it (lines 23 to 92) and as the
  round-trip property of the spec assumes it; it is a stand-in for the chip, no part of
  the program. It stores one byte per 7-bit address. A two-byte transfer whose first byte
  has bit 7 clear answers with the stored byte of that address and changes nothing; one
  whose first byte has bit 7 set answers with the stored byte and then stores the second
  byte sent. The first byte received is 0x00. A transfer of any other length leaves the
  receive buffer and the registers as they are.
\<close>

definition mock_transfernb ::
  "(byte \<Rightarrow> byte) \<Rightarrow> buf2 \<Rightarrow> buf2 \<Rightarrow> nat \<Rightarrow> buf2 \<times> (byte \<Rightarrow> byte)" where
  "mock_transfernb regs tbuf rbuf len =
     (if len = 2 then
        (let a = fst tbuf AND 0x7F
         in ((0x00, regs a), if bit (fst tbuf) 7 then regs(a := snd tbuf) else regs))
      else (rbuf, regs))"

definition mock :: "(byte \<Rightarrow> byte) bcm2835" where
  "mock = \<lparr>init_result = True, spi_begin_result = True, configure = (\<lambda>c regs. regs),
           transfernb = mock_transfernb\<rparr>"

text \<open>
  Register contents for the examples: the two values the header comment reports, 0x0F in
  the operating-mode register and 0x80 in register 0x07, and 0x00 elsewhere.
\<close>

definition reset_regs :: "byte \<Rightarrow> byte" where
  "reset_regs = (\<lambda>a. 0x00)(REG_OP_MODE := FSK_CAD, REG_RF_FREQ_MSB := 0x80)"

text \<open>
  Two more register contents for the examples: a chip that is already in a LoRa mode
  (0x8F in the operating-mode register), and one whose registers are all 0x00.
\<close>

definition lora_regs :: "byte \<Rightarrow> byte" where
  "lora_regs = (\<lambda>a. 0x00)(REG_OP_MODE := LORA_CAD)"

definition blank_regs :: "byte \<Rightarrow> byte" where
  "blank_regs = (\<lambda>a. 0x00)"

text \<open>A peripheral that never answers: every byte received is 0x00.\<close>

definition silent :: "unit bcm2835" where
  "silent = \<lparr>init_result = True, spi_begin_result = True, configure = (\<lambda>c u. u),
             transfernb = (\<lambda>u tbuf rbuf len. ((0x00, 0x00), u))\<rparr>"

section \<open>Auxiliary facts\<close>

subsection \<open>Bit 7 of a byte\<close>

lemma bit_int_128: "bit (128::int) n \<longleftrightarrow> n = 7"
proof -
  have "bit ((2::int) ^ 7) n \<longleftrightarrow> n = 7"
    by (simp only: bit_exp_iff) (auto simp: possible_bit_def)
  then show ?thesis by simp
qed

lemma bit_int_127: "bit (127::int) n \<longleftrightarrow> n < 7"
proof -
  have "bit (mask 7 :: int) n \<longleftrightarrow> n < 7"
    by (simp only: bit_mask_iff) (auto simp: possible_bit_def)
  then show ?thesis by (simp add: mask_eq_exp_minus_1)
qed

lemmas byte_bits = bit_or_iff bit_and_iff bit_int_128 bit_int_127

lemma byte_bit_cases: "bit a n \<Longrightarrow> n < 7 \<or> n = 7" for a :: byte
  using bit_imp_le_length[of a n] by auto

lemma bit_and_x80: "bit (b AND 0x80) n \<longleftrightarrow> n = 7 \<and> bit b 7" for b :: byte
  by (auto simp: byte_bits)

lemma and_x80_eq_0: "(b AND 0x80 = 0) = (\<not> bit b 7)" for b :: byte
proof
  assume "b AND 0x80 = 0"
  then have "\<not> bit (b AND 0x80) 7" by simp
  then show "\<not> bit b 7" by (simp add: bit_and_x80)
next
  assume "\<not> bit b 7"
  then show "b AND 0x80 = 0" by (intro bit_word_eqI) (simp add: bit_and_x80)
qed

lemma and_x7F_or_x80: "(a AND 0x7F) OR 0x80 = a OR 0x80" for a :: byte
  by (rule bit_word_eqI) (auto simp: byte_bits dest: byte_bit_cases)

lemma or_x80_id: "bit a 7 \<Longrightarrow> a OR 0x80 = a" for a :: byte
  by (rule bit_word_eqI) (auto simp: byte_bits dest: byte_bit_cases)

lemma or_x80_and_x7F: "\<not> bit a 7 \<Longrightarrow> (a OR 0x80) AND 0x7F = a" for a :: byte
  by (rule bit_word_eqI) (auto simp: byte_bits dest: byte_bit_cases)

lemma and_x7F_id: "\<not> bit a 7 \<Longrightarrow> a AND 0x7F = a" for a :: byte
  by (rule bit_word_eqI) (auto simp: byte_bits dest: byte_bit_cases)

lemma bit7_or_x80: "bit (a OR 0x80) 7" for a :: byte
  by (auto simp: byte_bits)

lemma le_x7F_iff: "a \<le> 0x7F \<longleftrightarrow> \<not> bit a 7" for a :: byte
proof
  assume le: "a \<le> 0x7F"
  show "\<not> bit a 7"
  proof
    assume "bit a 7"
    then have "a OR 0x80 = a" by (rule or_x80_id)
    moreover have "0x80 \<le> a OR 0x80"
      using le_word_or2[of "0x80" a] by (simp add: or.commute)
    ultimately have "0x80 \<le> a" by simp
    with le show False by (simp add: word_le_nat_alt)
  qed
next
  assume "\<not> bit a 7"
  then have "a AND 0x7F = a" by (rule and_x7F_id)
  moreover have "a AND 0x7F \<le> 0x7F" by (rule word_and_le1)
  ultimately show "a \<le> 0x7F" by simp
qed

subsection \<open>The delay loop, the observations and the helpers\<close>

lemma busy_wait_upto: "i \<le> 5000000 \<Longrightarrow> busy_wait i = 5000000"
proof (induction i rule: busy_wait.induct)
  case (1 i)
  show ?case
  proof (cases "i < 5000000")
    case True
    then have "busy_wait (i + 1) = 5000000" by (intro "1.IH") simp_all
    with True show ?thesis by (subst busy_wait.simps) simp
  next
    case False
    with "1.prems" have "i = 5000000" by simp
    then show ?thesis by (subst busy_wait.simps) simp
  qed
qed

lemma busy_wait_0 [simp]: "busy_wait 0 = 5000000"
  by (rule busy_wait_upto) simp

lemma calls_append [simp]: "calls (xs @ ys) = calls xs @ calls ys"
  by (simp add: calls_def)
lemma calls_Nil [simp]: "calls [] = []"
  by (simp add: calls_def)
lemma calls_Cons [simp]: "calls (e # es) = call_of e @ calls es"
  by (simp add: calls_def)
lemma actions_append [simp]: "actions (xs @ ys) = actions xs @ actions ys"
  by (simp add: actions_def)
lemma actions_Nil [simp]: "actions [] = []"
  by (simp add: actions_def)
lemma actions_Cons [simp]: "actions (e # es) = action_of e @ actions es"
  by (simp add: actions_def)

lemma trace_call [simp]: "trace (call hw c w) = trace w @ [Call c]"
  by (simp add: call_def)
lemma trace_printf [simp]: "trace (printf fmt args w) = trace w @ [Printf fmt args]"
  by (simp add: printf_def)
lemma device_printf [simp]: "device (printf fmt args w) = device w"
  by (simp add: printf_def)

lemma read_reg_unfold:
  "read_reg hw a w =
     (snd (fst (transfernb hw (device w) (a, 0x00) (0x00, 0x00) 2)),
      \<lparr>device = snd (transfernb hw (device w) (a, 0x00) (0x00, 0x00) 2),
       trace = trace w @
         [Transfer (a, 0x00) 2 (fst (transfernb hw (device w) (a, 0x00) (0x00, 0x00) 2)),
          Printf ''Read value 0x%02X from register 0x%02X.\<newline>''
            [snd (fst (transfernb hw (device w) (a, 0x00) (0x00, 0x00) 2)), a]]\<rparr>)"
  by (simp add: read_reg_def bcm2835_spi_transfernb_def printf_def Let_def case_prod_beta)

lemma write_reg_unfold:
  "write_reg hw a d w =
     (snd (fst (transfernb hw (device w) (a OR 0x80, d) (0x00, 0x00) 2)),
      \<lparr>device = snd (transfernb hw (device w) (a OR 0x80, d) (0x00, 0x00) 2),
       trace = trace w @
         [Transfer (a OR 0x80, d) 2 (fst (transfernb hw (device w) (a OR 0x80, d) (0x00, 0x00) 2)),
          Printf ''Wrote value 0x%02X to register 0x%02X.\<newline>'' [d, a]]\<rparr>)"
  by (simp add: write_reg_def bcm2835_spi_transfernb_def printf_def Let_def case_prod_beta)

lemma trace_read_reg:
  "trace (snd (read_reg hw a w)) =
     trace w @ [Transfer (a, 0x00) 2 (fst (fst (transfernb hw (device w) (a, 0x00) (0x00, 0x00) 2)), fst (read_reg hw a w)),
                Printf ''Read value 0x%02X from register 0x%02X.\<newline>'' [fst (read_reg hw a w), a]]"
  by (simp add: read_reg_unfold)

lemma trace_write_reg:
  "trace (snd (write_reg hw a d w)) =
     trace w @ [Transfer (a OR 0x80, d) 2 (fst (fst (transfernb hw (device w) (a OR 0x80, d) (0x00, 0x00) 2)), fst (write_reg hw a d w)),
                Printf ''Wrote value 0x%02X to register 0x%02X.\<newline>'' [d, a]]"
  by (simp add: write_reg_unfold)

lemma actions_read_reg [simp]:
  "actions (trace (snd (read_reg hw a w))) = actions (trace w) @ [Rd a]"
  by (simp add: trace_read_reg)
lemma actions_write_reg [simp]:
  "actions (trace (snd (write_reg hw a d w))) = actions (trace w) @ [Wr a d]"
  by (simp add: trace_write_reg)
lemma calls_read_reg [simp]:
  "calls (trace (snd (read_reg hw a w))) = calls (trace w) @ [((a, 0x00), fst (read_reg hw a w))]"
  by (simp add: trace_read_reg)
lemma calls_write_reg [simp]:
  "calls (trace (snd (write_reg hw a d w))) = calls (trace w) @ [((a OR 0x80, d), fst (write_reg hw a d w))]"
  by (simp add: trace_write_reg)

subsection \<open>The helpers against the mock\<close>

lemma transfernb_mock [simp]: "transfernb mock = mock_transfernb"
  by (simp add: mock_def)

lemma read_reg_mock:
  "read_reg mock a w =
     (device w (a AND 0x7F),
      \<lparr>device = (if bit a 7 then (device w)(a AND 0x7F := 0x00) else device w),
       trace = trace w @
         [Transfer (a, 0x00) 2 (0x00, device w (a AND 0x7F)),
          Printf ''Read value 0x%02X from register 0x%02X.\<newline>''
            [device w (a AND 0x7F), a]]\<rparr>)"
  by (simp add: read_reg_unfold mock_transfernb_def Let_def)

lemma write_reg_mock:
  "write_reg mock a d w =
     (device w (a AND 0x7F),
      \<lparr>device = (device w)(a AND 0x7F := d),
       trace = trace w @
         [Transfer (a OR 0x80, d) 2 (0x00, device w (a AND 0x7F)),
          Printf ''Wrote value 0x%02X to register 0x%02X.\<newline>'' [d, a]]\<rparr>)"
proof -
  have "(a OR 0x80) AND 0x7F = a AND 0x7F"
    by (rule bit_word_eqI) (auto simp: byte_bits)
  then show ?thesis
    by (simp add: write_reg_unfold mock_transfernb_def Let_def bit7_or_x80)
qed

lemma read_reg_transfer:
  "transfernb hw (device w) (a, 0x00) (0x00, 0x00) 2 =
     ((fst (fst (transfernb hw (device w) (a, 0x00) (0x00, 0x00) 2)), fst (read_reg hw a w)),
      device (snd (read_reg hw a w)))"
  by (simp add: read_reg_unfold)

lemma write_reg_transfer:
  "transfernb hw (device w) (a OR 0x80, d) (0x00, 0x00) 2 =
     ((fst (fst (transfernb hw (device w) (a OR 0x80, d) (0x00, 0x00) 2)),
       fst (write_reg hw a d w)),
      device (snd (write_reg hw a d w)))"
  by (simp add: write_reg_unfold)

lemma and_x7F_or_x80_id: "bit a 7 \<Longrightarrow> (a AND 0x7F) OR 0x80 = a" for a :: byte
  by (simp add: and_x7F_or_x80 or_x80_id)

lemma or_x80_neq: "\<not> bit a 7 \<Longrightarrow> a OR 0x80 \<noteq> a" for a :: byte
  using bit7_or_x80[of a] by auto

subsection \<open>The constants, unfolded\<close>

lemmas mode_defs = FSK_SLEEP_def FSK_CAD_def LORA_SLEEP_def LORA_STANDBY_def LORA_TX_def
  FIFO_TX_BASE_ADDR_def

lemmas reg_defs = REG_FIFO_def REG_OP_MODE_def REG_RF_FREQ_MSB_MSB_def REG_RF_FREQ_MSB_def
  REG_RF_FREQ_LSB_def REG_PA_CONFIG_def REG_PA_RAMP_def REG_OCP_def REG_LNA_def
  REG_FIFO_ADDR_PTR_def REG_FIFO_TX_BASE_ADDR_def REG_FIFO_RX_BASE_ADDR_def
  REG_FIFO_RX_CURRENT_ADDR_def REG_IRQ_FLAGS_MASK_def REG_IRQ_FLAGS_def REG_RX_NUM_BYTES_def
  REG_RX_PACKET_COUNT_MSB_def REG_RX_PACKET_COUNT_LSB_def REG_MODEM_STAT_def
  REG_PACKET_SNR_def REG_PACKET_RSSI_def REG_CURRENT_RSSI_def REG_HOP_CHANNEL_def
  REG_MODEM_CONFIG1_def REG_MODEM_CONFIG2_def REG_PREAMBLE_LEN_MSB_def
  REG_PREAMBLE_LEN_LSB_def REG_PAYLOAD_LEN_def REG_MAX_PAYLOAD_LEN_def REG_HOP_PERIOD_def
  REG_MODEM_CONFIG3_def REG_DETECT_OPTIMIZE_def REG_DETECT_THRESH_def REG_SYNC_WORD_def

subsection \<open>The diagnostic pass\<close>

lemma actions_diagnose:
  "actions (trace (diagnose hw w)) =
     actions (trace w) @ map Rd (filter (\<lambda>a. a \<noteq> REG_FIFO) register_map)"
  by (simp add: diagnose_def Let_def register_map_def reg_defs)

lemma distinct_register_map: "distinct register_map"
  by (simp add: register_map_def reg_defs)

lemma register_map_7bit: "list_all (\<lambda>a. a \<le> 0x7F) register_map"
  by (simp add: register_map_def reg_defs)

lemma device_read_reg_mock: "a \<le> 0x7F \<Longrightarrow> device (snd (read_reg mock a w)) = device w"
  by (simp add: read_reg_mock le_x7F_iff)

lemma device_diagnose_mock: "device (diagnose mock w) = device w"
  by (simp add: diagnose_def Let_def device_read_reg_mock reg_defs)

lemma calls_diagnose_ex:
  "\<exists>cs. calls (trace (diagnose hw w)) = calls (trace w) @ cs \<and>
        map fst cs = map (\<lambda>a. (a, 0x00)) (filter (\<lambda>a. a \<noteq> REG_FIFO) register_map)"
  by (simp add: diagnose_def Let_def register_map_def reg_defs)

subsection \<open>The run of main\<close>

lemma device_call [simp]: "device (call hw c w) = configure hw c (device w)"
  by (simp add: call_def)

lemma main_run:
  assumes "init_result hw" and "spi_begin_result hw"
  obtains b v1 v2 v3 m w5 post w7 where
    "main hw s0 =
       (if m \<noteq> LORA_STANDBY
        then (1, printf ''There was a problem entering LORA_STANDBY.\<newline>'' [] w5)
        else (0, w7))"
    and "calls (trace w5) =
       ((REG_OP_MODE, 0x00), b) #
       (if b AND 0x80 = 0x00 then [((REG_OP_MODE OR 0x80, FSK_SLEEP), v1)] else []) @
       [((REG_OP_MODE OR 0x80, LORA_SLEEP), v2), ((REG_OP_MODE OR 0x80, LORA_STANDBY), v3),
        ((REG_OP_MODE, 0x00), m)]"
    and "actions (trace w5) =
       Rd REG_OP_MODE #
       (if b AND 0x80 = 0x00 then [Wr REG_OP_MODE FSK_SLEEP] else []) @
       [Wr REG_OP_MODE LORA_SLEEP, Wr REG_OP_MODE LORA_STANDBY, Rd REG_OP_MODE]"
    and "calls (trace w7) = calls (trace w5) @ post"
    and "map fst post =
       map (\<lambda>a. (a, 0x00)) (filter (\<lambda>a. a \<noteq> REG_FIFO) register_map) @
       [(REG_FIFO_ADDR_PTR, 0x00), (REG_FIFO_ADDR_PTR OR 0x80, FIFO_TX_BASE_ADDR),
        (REG_FIFO OR 0x80, 0xCC), (REG_OP_MODE OR 0x80, LORA_TX),
        (REG_IRQ_FLAGS, 0x00), (REG_OP_MODE, 0x00)]"
    and "actions (trace w7) =
       actions (trace w5) @ map Rd (filter (\<lambda>a. a \<noteq> REG_FIFO) register_map) @
       [Rd REG_FIFO_ADDR_PTR, Wr REG_FIFO_ADDR_PTR FIFO_TX_BASE_ADDR, Wr REG_FIFO 0xCC,
        Wr REG_OP_MODE LORA_TX, Spin 5000000, Rd REG_IRQ_FLAGS, Rd REG_OP_MODE]"
proof -
  define w0 where "w0 =
    call hw Gpio_set (call hw Gpio_fsel (call hw Spi_setChipSelectPolarity
      (call hw Spi_chipSelect (call hw Spi_setClockDivider (call hw Spi_setDataMode
        (call hw Spi_setBitOrder \<lparr>device = s0, trace = []\<rparr>))))))"
  define b where "b = fst (read_reg hw REG_OP_MODE w0)"
  define w1 where "w1 = snd (read_reg hw REG_OP_MODE w0)"
  define v1 where "v1 = fst (write_reg hw REG_OP_MODE FSK_SLEEP w1)"
  define w2 where "w2 =
    (if b AND 0x80 = 0x00 then snd (write_reg hw REG_OP_MODE FSK_SLEEP w1) else w1)"
  define v2 where "v2 = fst (write_reg hw REG_OP_MODE LORA_SLEEP w2)"
  define w3 where "w3 = snd (write_reg hw REG_OP_MODE LORA_SLEEP w2)"
  define v3 where "v3 = fst (write_reg hw REG_OP_MODE LORA_STANDBY w3)"
  define w4 where "w4 = snd (write_reg hw REG_OP_MODE LORA_STANDBY w3)"
  define m where "m = fst (read_reg hw REG_OP_MODE w4)"
  define w5 where "w5 = snd (read_reg hw REG_OP_MODE w4)"
  define wd where "wd = diagnose hw (printf ''Device has entered LORA_STANDBY.\<newline>'' [] w5)"
  define x1 where "x1 = snd (read_reg hw REG_FIFO_ADDR_PTR wd)"
  define x2 where "x2 = snd (write_reg hw REG_FIFO_ADDR_PTR FIFO_TX_BASE_ADDR x1)"
  define x3 where "x3 = snd (write_reg hw REG_FIFO 0xCC x2)"
  define x4 where "x4 = snd (write_reg hw REG_OP_MODE LORA_TX x3)"
  define x5 where "x5 = x4\<lparr>trace := trace x4 @ [Spun 5000000]\<rparr>"
  define x6 where "x6 = snd (read_reg hw REG_IRQ_FLAGS x5)"
  define x7 where "x7 = snd (read_reg hw REG_OP_MODE x6)"
  define w7 where "w7 = call hw Close (call hw Spi_end x7)"
  have run: "main hw s0 =
       (if m \<noteq> LORA_STANDBY
        then (1, printf ''There was a problem entering LORA_STANDBY.\<newline>'' [] w5)
        else (0, w7))"
    unfolding main_def w7_def x7_def x6_def x5_def x4_def x3_def x2_def x1_def wd_def w5_def
      m_def w4_def w3_def w2_def w1_def b_def w0_def
    using assms by (simp add: Let_def case_prod_beta)
  have c0: "calls (trace w0) = []" and a0: "actions (trace w0) = []"
    by (simp_all add: w0_def)
  have c1: "calls (trace w1) = [((REG_OP_MODE, 0x00), b)]"
    and a1: "actions (trace w1) = [Rd REG_OP_MODE]"
    by (simp_all add: w1_def b_def c0 a0)
  have c2: "calls (trace w2) = ((REG_OP_MODE, 0x00), b) #
      (if b AND 0x80 = 0x00 then [((REG_OP_MODE OR 0x80, FSK_SLEEP), v1)] else [])"
    and a2: "actions (trace w2) = Rd REG_OP_MODE #
      (if b AND 0x80 = 0x00 then [Wr REG_OP_MODE FSK_SLEEP] else [])"
    by (simp_all add: w2_def v1_def c1 a1)
  have c5: "calls (trace w5) =
       ((REG_OP_MODE, 0x00), b) #
       (if b AND 0x80 = 0x00 then [((REG_OP_MODE OR 0x80, FSK_SLEEP), v1)] else []) @
       [((REG_OP_MODE OR 0x80, LORA_SLEEP), v2), ((REG_OP_MODE OR 0x80, LORA_STANDBY), v3),
        ((REG_OP_MODE, 0x00), m)]"
    by (simp add: w5_def m_def w4_def v3_def w3_def v2_def c2)
  have a5: "actions (trace w5) =
       Rd REG_OP_MODE #
       (if b AND 0x80 = 0x00 then [Wr REG_OP_MODE FSK_SLEEP] else []) @
       [Wr REG_OP_MODE LORA_SLEEP, Wr REG_OP_MODE LORA_STANDBY, Rd REG_OP_MODE]"
    by (simp add: w5_def w4_def w3_def a2)
  obtain cs where cd: "calls (trace wd) = calls (trace w5) @ cs"
    and cs: "map fst cs = map (\<lambda>a. (a, 0x00)) (filter (\<lambda>a. a \<noteq> REG_FIFO) register_map)"
    using calls_diagnose_ex[of hw "printf ''Device has entered LORA_STANDBY.\<newline>'' [] w5"]
    by (auto simp: wd_def)
  have ad: "actions (trace wd) =
      actions (trace w5) @ map Rd (filter (\<lambda>a. a \<noteq> REG_FIFO) register_map)"
    by (simp add: wd_def actions_diagnose)
  define post where "post = cs @
     [((REG_FIFO_ADDR_PTR, 0x00), fst (read_reg hw REG_FIFO_ADDR_PTR wd)),
      ((REG_FIFO_ADDR_PTR OR 0x80, FIFO_TX_BASE_ADDR),
        fst (write_reg hw REG_FIFO_ADDR_PTR FIFO_TX_BASE_ADDR x1)),
      ((REG_FIFO OR 0x80, 0xCC), fst (write_reg hw REG_FIFO 0xCC x2)),
      ((REG_OP_MODE OR 0x80, LORA_TX), fst (write_reg hw REG_OP_MODE LORA_TX x3)),
      ((REG_IRQ_FLAGS, 0x00), fst (read_reg hw REG_IRQ_FLAGS x5)),
      ((REG_OP_MODE, 0x00), fst (read_reg hw REG_OP_MODE x6))]"
  have c7: "calls (trace w7) = calls (trace w5) @ post"
    by (simp add: w7_def x7_def x6_def x5_def x4_def x3_def x2_def x1_def cd post_def)
  have p: "map fst post =
       map (\<lambda>a. (a, 0x00)) (filter (\<lambda>a. a \<noteq> REG_FIFO) register_map) @
       [(REG_FIFO_ADDR_PTR, 0x00), (REG_FIFO_ADDR_PTR OR 0x80, FIFO_TX_BASE_ADDR),
        (REG_FIFO OR 0x80, 0xCC), (REG_OP_MODE OR 0x80, LORA_TX),
        (REG_IRQ_FLAGS, 0x00), (REG_OP_MODE, 0x00)]"
    by (simp add: post_def cs)
  have a7: "actions (trace w7) =
       actions (trace w5) @ map Rd (filter (\<lambda>a. a \<noteq> REG_FIFO) register_map) @
       [Rd REG_FIFO_ADDR_PTR, Wr REG_FIFO_ADDR_PTR FIFO_TX_BASE_ADDR, Wr REG_FIFO 0xCC,
        Wr REG_OP_MODE LORA_TX, Spin 5000000, Rd REG_IRQ_FLAGS, Rd REG_OP_MODE]"
    by (simp add: w7_def x7_def x6_def x5_def x4_def x3_def x2_def x1_def ad)
  from run c5 a5 c7 p a7 show thesis by (rule that)
qed

lemma main_init_failed:
  "\<not> (init_result hw \<and> spi_begin_result hw) \<Longrightarrow> fst (main hw s0) = 1"
proof (cases "init_result hw")
  case True
  assume "\<not> (init_result hw \<and> spi_begin_result hw)"
  with True have "\<not> spi_begin_result hw" by simp
  with True show ?thesis by (simp add: main_def)
next
  case False
  then show ?thesis by (simp add: main_def)
qed

lemma main_actions:
  assumes "init_result hw" and "spi_begin_result hw"
  obtains b m cs where
    "calls (trace (snd (main hw s0))) = ((REG_OP_MODE, 0x00), b) # cs"
    and "fst (main hw s0) = (if m \<noteq> LORA_STANDBY then 1 else 0)"
    and "\<exists>v post. dropWhile (\<lambda>c. fst c \<noteq> (REG_OP_MODE OR 0x80, LORA_STANDBY))
           (calls (trace (snd (main hw s0)))) =
         ((REG_OP_MODE OR 0x80, LORA_STANDBY), v) # ((REG_OP_MODE, 0x00), m) # post"
    and "actions (trace (snd (main hw s0))) =
       Rd REG_OP_MODE #
       (if bit b 7 then [] else [Wr REG_OP_MODE FSK_SLEEP]) @
       [Wr REG_OP_MODE LORA_SLEEP, Wr REG_OP_MODE LORA_STANDBY, Rd REG_OP_MODE] @
       (if m \<noteq> LORA_STANDBY then [] else
          map Rd (filter (\<lambda>a. a \<noteq> REG_FIFO) register_map) @
          [Rd REG_FIFO_ADDR_PTR, Wr REG_FIFO_ADDR_PTR FIFO_TX_BASE_ADDR, Wr REG_FIFO 0xCC,
           Wr REG_OP_MODE LORA_TX, Spin 5000000, Rd REG_IRQ_FLAGS, Rd REG_OP_MODE])"
proof -
  obtain b v1 v2 v3 m w5 post w7 where
    run: "main hw s0 =
       (if m \<noteq> LORA_STANDBY
        then (1, printf ''There was a problem entering LORA_STANDBY.\<newline>'' [] w5)
        else (0, w7))"
    and c5: "calls (trace w5) =
       ((REG_OP_MODE, 0x00), b) #
       (if b AND 0x80 = 0x00 then [((REG_OP_MODE OR 0x80, FSK_SLEEP), v1)] else []) @
       [((REG_OP_MODE OR 0x80, LORA_SLEEP), v2), ((REG_OP_MODE OR 0x80, LORA_STANDBY), v3),
        ((REG_OP_MODE, 0x00), m)]"
    and a5: "actions (trace w5) =
       Rd REG_OP_MODE #
       (if b AND 0x80 = 0x00 then [Wr REG_OP_MODE FSK_SLEEP] else []) @
       [Wr REG_OP_MODE LORA_SLEEP, Wr REG_OP_MODE LORA_STANDBY, Rd REG_OP_MODE]"
    and c7: "calls (trace w7) = calls (trace w5) @ post"
    and p: "map fst post =
       map (\<lambda>a. (a, 0x00)) (filter (\<lambda>a. a \<noteq> REG_FIFO) register_map) @
       [(REG_FIFO_ADDR_PTR, 0x00), (REG_FIFO_ADDR_PTR OR 0x80, FIFO_TX_BASE_ADDR),
        (REG_FIFO OR 0x80, 0xCC), (REG_OP_MODE OR 0x80, LORA_TX),
        (REG_IRQ_FLAGS, 0x00), (REG_OP_MODE, 0x00)]"
    and a7: "actions (trace w7) =
       actions (trace w5) @ map Rd (filter (\<lambda>a. a \<noteq> REG_FIFO) register_map) @
       [Rd REG_FIFO_ADDR_PTR, Wr REG_FIFO_ADDR_PTR FIFO_TX_BASE_ADDR, Wr REG_FIFO 0xCC,
        Wr REG_OP_MODE LORA_TX, Spin 5000000, Rd REG_IRQ_FLAGS, Rd REG_OP_MODE]"
    by (rule main_run[OF assms, of s0])
  define tr where "tr = trace (snd (main hw s0))"
  have c: "calls tr = calls (trace w5) @ (if m \<noteq> LORA_STANDBY then [] else post)"
    by (simp add: tr_def run c7)
  have 1: "calls tr = ((REG_OP_MODE, 0x00), b) #
       ((if b AND 0x80 = 0x00 then [((REG_OP_MODE OR 0x80, FSK_SLEEP), v1)] else []) @
       [((REG_OP_MODE OR 0x80, LORA_SLEEP), v2), ((REG_OP_MODE OR 0x80, LORA_STANDBY), v3),
        ((REG_OP_MODE, 0x00), m)] @ (if m \<noteq> LORA_STANDBY then [] else post))"
    by (simp add: c c5)
  have 2: "fst (main hw s0) = (if m \<noteq> LORA_STANDBY then 1 else 0)"
    by (simp add: run)
  have "dropWhile (\<lambda>c. fst c \<noteq> (REG_OP_MODE OR 0x80, LORA_STANDBY)) (calls tr) =
         ((REG_OP_MODE OR 0x80, LORA_STANDBY), v3) # ((REG_OP_MODE, 0x00), m) #
         (if m \<noteq> LORA_STANDBY then [] else post)"
    by (simp add: c c5 reg_defs mode_defs)
  then have 3: "\<exists>v post. dropWhile (\<lambda>c. fst c \<noteq> (REG_OP_MODE OR 0x80, LORA_STANDBY))
           (calls tr) =
         ((REG_OP_MODE OR 0x80, LORA_STANDBY), v) # ((REG_OP_MODE, 0x00), m) # post"
    by (intro exI)
  have 4: "actions tr =
       Rd REG_OP_MODE #
       (if bit b 7 then [] else [Wr REG_OP_MODE FSK_SLEEP]) @
       [Wr REG_OP_MODE LORA_SLEEP, Wr REG_OP_MODE LORA_STANDBY, Rd REG_OP_MODE] @
       (if m \<noteq> LORA_STANDBY then [] else
          map Rd (filter (\<lambda>a. a \<noteq> REG_FIFO) register_map) @
          [Rd REG_FIFO_ADDR_PTR, Wr REG_FIFO_ADDR_PTR FIFO_TX_BASE_ADDR, Wr REG_FIFO 0xCC,
           Wr REG_OP_MODE LORA_TX, Spin 5000000, Rd REG_IRQ_FLAGS, Rd REG_OP_MODE])"
    by (simp add: tr_def run a7 a5 and_x80_eq_0)
  from 1 2 3 4 show thesis unfolding tr_def by (rule that)
qed

lemma main_passed:
  assumes "init_result hw" and "spi_begin_result hw"
    and "\<exists>v post. dropWhile (\<lambda>c. fst c \<noteq> (REG_OP_MODE OR 0x80, LORA_STANDBY))
           (calls (trace (snd (main hw s0)))) =
         ((REG_OP_MODE OR 0x80, LORA_STANDBY), v) # ((REG_OP_MODE, 0x00), LORA_STANDBY) # post"
  obtains b cs where
    "calls (trace (snd (main hw s0))) = ((REG_OP_MODE, 0x00), b) # cs"
    and "fst (main hw s0) = 0"
    and "actions (trace (snd (main hw s0))) =
       Rd REG_OP_MODE #
       (if bit b 7 then [] else [Wr REG_OP_MODE FSK_SLEEP]) @
       [Wr REG_OP_MODE LORA_SLEEP, Wr REG_OP_MODE LORA_STANDBY, Rd REG_OP_MODE] @
       map Rd (filter (\<lambda>a. a \<noteq> REG_FIFO) register_map) @
       [Rd REG_FIFO_ADDR_PTR, Wr REG_FIFO_ADDR_PTR FIFO_TX_BASE_ADDR, Wr REG_FIFO 0xCC,
        Wr REG_OP_MODE LORA_TX, Spin 5000000, Rd REG_IRQ_FLAGS, Rd REG_OP_MODE]"
proof -
  obtain b m cs where
    c: "calls (trace (snd (main hw s0))) = ((REG_OP_MODE, 0x00), b) # cs"
    and e: "fst (main hw s0) = (if m \<noteq> LORA_STANDBY then 1 else 0)"
    and d: "\<exists>v post. dropWhile (\<lambda>c. fst c \<noteq> (REG_OP_MODE OR 0x80, LORA_STANDBY))
           (calls (trace (snd (main hw s0)))) =
         ((REG_OP_MODE OR 0x80, LORA_STANDBY), v) # ((REG_OP_MODE, 0x00), m) # post"
    and a: "actions (trace (snd (main hw s0))) =
       Rd REG_OP_MODE #
       (if bit b 7 then [] else [Wr REG_OP_MODE FSK_SLEEP]) @
       [Wr REG_OP_MODE LORA_SLEEP, Wr REG_OP_MODE LORA_STANDBY, Rd REG_OP_MODE] @
       (if m \<noteq> LORA_STANDBY then [] else
          map Rd (filter (\<lambda>a. a \<noteq> REG_FIFO) register_map) @
          [Rd REG_FIFO_ADDR_PTR, Wr REG_FIFO_ADDR_PTR FIFO_TX_BASE_ADDR, Wr REG_FIFO 0xCC,
           Wr REG_OP_MODE LORA_TX, Spin 5000000, Rd REG_IRQ_FLAGS, Rd REG_OP_MODE])"
    by (rule main_actions[OF assms(1,2), of s0])
  from d assms(3) have m: "m = LORA_STANDBY" by (elim exE) simp
  from c e a show thesis unfolding m by (intro that[of b cs]) simp_all
qed

lemma actions_from_standby:
  "dropWhile (\<lambda>a. a \<noteq> Wr REG_OP_MODE LORA_STANDBY)
     (Rd REG_OP_MODE #
       (if bit b 7 then [] else [Wr REG_OP_MODE FSK_SLEEP]) @
       [Wr REG_OP_MODE LORA_SLEEP, Wr REG_OP_MODE LORA_STANDBY, Rd REG_OP_MODE] @ rest) =
   Wr REG_OP_MODE LORA_STANDBY # Rd REG_OP_MODE # rest"
  by (simp add: reg_defs mode_defs)

lemma actions_but_fsk_sleep:
  "filter (\<lambda>a. a \<noteq> Wr REG_OP_MODE FSK_SLEEP)
     (Rd REG_OP_MODE #
       (if bit b 7 then [] else [Wr REG_OP_MODE FSK_SLEEP]) @
       [Wr REG_OP_MODE LORA_SLEEP, Wr REG_OP_MODE LORA_STANDBY, Rd REG_OP_MODE] @
       map Rd (filter (\<lambda>a. a \<noteq> REG_FIFO) register_map) @
       [Rd REG_FIFO_ADDR_PTR, Wr REG_FIFO_ADDR_PTR FIFO_TX_BASE_ADDR, Wr REG_FIFO 0xCC,
        Wr REG_OP_MODE LORA_TX, Spin 5000000, Rd REG_IRQ_FLAGS, Rd REG_OP_MODE]) =
   [Rd REG_OP_MODE, Wr REG_OP_MODE LORA_SLEEP, Wr REG_OP_MODE LORA_STANDBY, Rd REG_OP_MODE] @
       map Rd (filter (\<lambda>a. a \<noteq> REG_FIFO) register_map) @
       [Rd REG_FIFO_ADDR_PTR, Wr REG_FIFO_ADDR_PTR FIFO_TX_BASE_ADDR, Wr REG_FIFO 0xCC,
        Wr REG_OP_MODE LORA_TX, Spin 5000000, Rd REG_IRQ_FLAGS, Rd REG_OP_MODE]"
  by (simp add: register_map_def reg_defs mode_defs)

subsection \<open>The run of main against the mock and the silent peripheral\<close>

lemma init_mock [simp]: "init_result mock" "spi_begin_result mock" "configure mock c = (\<lambda>s. s)"
  by (simp_all add: mock_def)

lemma init_silent [simp]: "init_result silent" "spi_begin_result silent"
  "configure silent c = (\<lambda>s. s)" "transfernb silent = (\<lambda>u tbuf rbuf len. ((0x00, 0x00), u))"
  by (simp_all add: silent_def)

lemma main_silent: "fst (main silent ()) = 1"
  by (simp add: main_def Let_def read_reg_unfold write_reg_unfold reg_defs mode_defs)

lemma main_mock_exit: "fst (main mock regs) = 0"
  by (simp add: main_def Let_def read_reg_mock write_reg_mock reg_defs mode_defs diagnose_def)

lemma main_mock_boot:
  "\<exists>cs. calls (trace (snd (main mock regs))) = ((REG_OP_MODE, 0x00), regs REG_OP_MODE) # cs"
  by (simp add: main_def Let_def read_reg_mock write_reg_mock reg_defs mode_defs diagnose_def)

lemma main_mock_passed:
  "\<exists>v post. dropWhile (\<lambda>c. fst c \<noteq> (REG_OP_MODE OR 0x80, LORA_STANDBY))
       (calls (trace (snd (main mock regs)))) =
     ((REG_OP_MODE OR 0x80, LORA_STANDBY), v) # ((REG_OP_MODE, 0x00), LORA_STANDBY) # post"
proof -
  have i: "init_result mock" "spi_begin_result mock" by simp_all
  obtain b m cs where
    c: "calls (trace (snd (main mock regs))) = ((REG_OP_MODE, 0x00), b) # cs"
    and e: "fst (main mock regs) = (if m \<noteq> LORA_STANDBY then 1 else 0)"
    and d: "\<exists>v post. dropWhile (\<lambda>c. fst c \<noteq> (REG_OP_MODE OR 0x80, LORA_STANDBY))
           (calls (trace (snd (main mock regs)))) =
         ((REG_OP_MODE OR 0x80, LORA_STANDBY), v) # ((REG_OP_MODE, 0x00), m) # post"
    and a: "actions (trace (snd (main mock regs))) =
       Rd REG_OP_MODE #
       (if bit b 7 then [] else [Wr REG_OP_MODE FSK_SLEEP]) @
       [Wr REG_OP_MODE LORA_SLEEP, Wr REG_OP_MODE LORA_STANDBY, Rd REG_OP_MODE] @
       (if m \<noteq> LORA_STANDBY then [] else
          map Rd (filter (\<lambda>a. a \<noteq> REG_FIFO) register_map) @
          [Rd REG_FIFO_ADDR_PTR, Wr REG_FIFO_ADDR_PTR FIFO_TX_BASE_ADDR, Wr REG_FIFO 0xCC,
           Wr REG_OP_MODE LORA_TX, Spin 5000000, Rd REG_IRQ_FLAGS, Rd REG_OP_MODE])"
    by (rule main_actions[OF i, of regs])
  from e main_mock_exit[of regs] have "m = LORA_STANDBY" by (simp split: if_splits)
  with d show ?thesis by simp
qed

lemma boot_modes:
  "reset_regs REG_OP_MODE = 0x0F" "lora_regs REG_OP_MODE = 0x8F" "blank_regs REG_OP_MODE = 0x00"
  by (simp_all add: reset_regs_def lora_regs_def blank_regs_def reg_defs mode_defs LORA_CAD_def)

lemma bit7_examples: "\<not> bit (0x0F :: byte) 7" "bit (0x8F :: byte) 7" "\<not> bit (0x00 :: byte) 7"
  by simp_all

section \<open>The claims\<close>

text \<open>
  Claim C1. For every address \<open>a\<close> in [0, 0x7F], \<open>read_reg a\<close> makes exactly one call
  of the transfer primitive, with the transmit buffer \<open>[a, 0x00]\<close>, the receive buffer
  \<open>[0x00, 0x00]\<close> and length 2, and returns the second byte received, whatever the
  first byte \<open>g\<close> received is. The trace grows by that one transfer and the line printed;
  the outside state after the call is the one the transfer left. The address byte has bit 7
  clear, the read encoding.
\<close>

theorem read_reg_exchange:
  "a \<le> 0x7F \<Longrightarrow>
     (\<exists>g. transfernb hw (device w) (a, 0x00) (0x00, 0x00) 2 =
             ((g, fst (read_reg hw a w)), device (snd (read_reg hw a w))) \<and>
          trace (snd (read_reg hw a w)) =
             trace w @
             [Transfer (a, 0x00) 2 (g, fst (read_reg hw a w)),
              Printf ''Read value 0x%02X from register 0x%02X.\<newline>''
                [fst (read_reg hw a w), a]]) \<and>
     \<not> bit a 7"
proof -
  assume "a \<le> 0x7F"
  then have "\<not> bit a 7" by (simp add: le_x7F_iff)
  then show ?thesis
    using read_reg_transfer[of hw w a] trace_read_reg[of hw a w] by blast
qed

text \<open>
  The read of the header comment: register 0x07 holds 0x80.
\<close>

theorem read_reg_exchange_witness:
  "(0x07 :: byte) \<le> 0x7F \<and>
   fst (read_reg mock 0x07 \<lparr>device = reset_regs, trace = []\<rparr>) = 0x80 \<and>
   (\<exists>g. trace (snd (read_reg mock 0x07 \<lparr>device = reset_regs, trace = []\<rparr>)) =
      [Transfer (0x07, 0x00) 2 (g, 0x80),
       Printf ''Read value 0x%02X from register 0x%02X.\<newline>'' [0x80, 0x07]])"
proof -
  have h: "(0x07 :: byte) \<le> 0x7F" by simp
  have v: "fst (read_reg mock 0x07 \<lparr>device = reset_regs, trace = []\<rparr>) = 0x80"
    by (simp add: read_reg_mock reset_regs_def REG_OP_MODE_def REG_RF_FREQ_MSB_def)
  from read_reg_exchange[OF h, of mock "\<lparr>device = reset_regs, trace = []\<rparr>"] v h
  show ?thesis by auto
qed

text \<open>
  Claim C2. For every address \<open>a\<close> in [0, 0x7F] and data byte \<open>d\<close>, \<open>write_reg a d\<close>
  makes exactly one call of the transfer primitive, with the transmit buffer
  \<open>[a OR 0x80, d]\<close> and length 2, and returns the second byte received. The address
  byte has bit 7 set and its low seven bits are \<open>a\<close>. Under the peripheral contract, as the
  mock states it, the value returned is what register \<open>a\<close> held just before the write, and
  the register holds \<open>d\<close> afterwards.
\<close>

theorem write_reg_exchange:
  "a \<le> 0x7F \<Longrightarrow>
     (\<exists>g. transfernb hw (device w) (a OR 0x80, d) (0x00, 0x00) 2 =
             ((g, fst (write_reg hw a d w)), device (snd (write_reg hw a d w))) \<and>
          trace (snd (write_reg hw a d w)) =
             trace w @
             [Transfer (a OR 0x80, d) 2 (g, fst (write_reg hw a d w)),
              Printf ''Wrote value 0x%02X to register 0x%02X.\<newline>'' [d, a]]) \<and>
     bit (a OR 0x80) 7 \<and> (a OR 0x80) AND 0x7F = a \<and>
     fst (write_reg mock a d m) = device m a \<and>
     device (snd (write_reg mock a d m)) = (device m)(a := d)"
proof -
  assume "a \<le> 0x7F"
  then have lo: "\<not> bit a 7" by (simp add: le_x7F_iff)
  have "\<exists>g. transfernb hw (device w) (a OR 0x80, d) (0x00, 0x00) 2 =
             ((g, fst (write_reg hw a d w)), device (snd (write_reg hw a d w))) \<and>
          trace (snd (write_reg hw a d w)) =
             trace w @
             [Transfer (a OR 0x80, d) 2 (g, fst (write_reg hw a d w)),
              Printf ''Wrote value 0x%02X to register 0x%02X.\<newline>'' [d, a]]"
    using write_reg_transfer[of hw w a d] trace_write_reg[of hw a d w] by blast
  moreover have "fst (write_reg mock a d m) = device m a"
    and "device (snd (write_reg mock a d m)) = (device m)(a := d)"
    by (simp_all add: write_reg_mock and_x7F_id[OF lo])
  ultimately show ?thesis
    using bit7_or_x80[of a] or_x80_and_x7F[OF lo] by blast
qed

text \<open>
  The write of the header comment: 0x08 to register 0x01, which held 0x0F.
\<close>

theorem write_reg_exchange_witness:
  "(0x01 :: byte) \<le> 0x7F \<and>
   fst (write_reg mock 0x01 0x08 \<lparr>device = reset_regs, trace = []\<rparr>) = 0x0F \<and>
   device (snd (write_reg mock 0x01 0x08 \<lparr>device = reset_regs, trace = []\<rparr>)) 0x01 = 0x08 \<and>
   (\<exists>g. trace (snd (write_reg mock 0x01 0x08 \<lparr>device = reset_regs, trace = []\<rparr>)) =
      [Transfer (0x81, 0x08) 2 (g, 0x0F),
       Printf ''Wrote value 0x%02X to register 0x%02X.\<newline>'' [0x08, 0x01]])"
proof -
  have h: "(0x01 :: byte) \<le> 0x7F" by simp
  have r: "reset_regs 0x01 = 0x0F"
    by (simp add: reset_regs_def REG_OP_MODE_def REG_RF_FREQ_MSB_def FSK_CAD_def)
  from write_reg_exchange[OF h, of mock "\<lparr>device = reset_regs, trace = []\<rparr>" "0x08"
      "\<lparr>device = reset_regs, trace = []\<rparr>"] r h
  show ?thesis by auto
qed

text \<open>
  Claim C3. Against the mock peripheral, for every address \<open>a\<close> in [0, 0x7F] and data
  byte \<open>d\<close>: \<open>read_reg a\<close> after \<open>write_reg a d\<close> returns \<open>d\<close>, and the
  \<open>write_reg\<close> call itself returns the value the mock held at \<open>a\<close> just before it.
\<close>

theorem mock_round_trip:
  "a \<le> 0x7F \<Longrightarrow>
     fst (read_reg mock a (snd (write_reg mock a d w))) = d \<and>
     fst (write_reg mock a d w) = device w a"
proof -
  assume "a \<le> 0x7F"
  then have "a AND 0x7F = a" by (simp add: le_x7F_iff and_x7F_id)
  then show ?thesis by (simp add: read_reg_mock write_reg_mock)
qed

text \<open>
  The write and the read after it of the header comment, on register 0x01.
\<close>

theorem mock_round_trip_witness:
  "(0x01 :: byte) \<le> 0x7F \<and>
   fst (read_reg mock 0x01
     (snd (write_reg mock 0x01 0x08 \<lparr>device = reset_regs, trace = []\<rparr>))) = 0x08 \<and>
   fst (write_reg mock 0x01 0x08 \<lparr>device = reset_regs, trace = []\<rparr>) = 0x0F"
proof -
  have h: "(0x01 :: byte) \<le> 0x7F" by simp
  have r: "reset_regs 0x01 = 0x0F"
    by (simp add: reset_regs_def REG_OP_MODE_def REG_RF_FREQ_MSB_def FSK_CAD_def)
  from mock_round_trip[OF h, of "0x08" "\<lparr>device = reset_regs, trace = []\<rparr>"] r h
  show ?thesis by simp
qed

text \<open>
  Claim C4. Once the library is initialised, the run writes LoRa standby to the
  operating-mode register, and the transfer right after that write is the read-back of the
  register (line 250), returning \<open>m\<close>. The exit status is 1 if and only if \<open>m\<close> differs from
  \<open>LORA_STANDBY\<close> (0x89). In that case the read-back is the last transfer of the run
  (no diagnostics, no transmit test) and the last thing the program does is print the
  failure message. Otherwise the exit status is 0 and the transfers after the read-back are
  the 33 diagnostic reads and the six transfers of the transmit test. (A failed
  \<open>bcm2835_init\<close> or \<open>bcm2835_spi_begin\<close> also exits with 1, before the sequencer
  starts; lemma \<open>main_init_failed\<close>.)
\<close>

theorem standby_check:
  "init_result hw \<Longrightarrow> spi_begin_result hw \<Longrightarrow>
   \<exists>v m post.
     dropWhile (\<lambda>c. fst c \<noteq> (REG_OP_MODE OR 0x80, LORA_STANDBY))
         (calls (trace (snd (main hw s0)))) =
       ((REG_OP_MODE OR 0x80, LORA_STANDBY), v) # ((REG_OP_MODE, 0x00), m) # post \<and>
     (fst (main hw s0) = 1) = (m \<noteq> LORA_STANDBY) \<and>
     (if m \<noteq> LORA_STANDBY
      then post = [] \<and>
           last (trace (snd (main hw s0))) =
             Printf ''There was a problem entering LORA_STANDBY.\<newline>'' []
      else fst (main hw s0) = 0 \<and>
           map fst post =
             map (\<lambda>a. (a, 0x00)) (filter (\<lambda>a. a \<noteq> REG_FIFO) register_map) @
             [(REG_FIFO_ADDR_PTR, 0x00), (REG_FIFO_ADDR_PTR OR 0x80, FIFO_TX_BASE_ADDR),
              (REG_FIFO OR 0x80, 0xCC), (REG_OP_MODE OR 0x80, LORA_TX),
              (REG_IRQ_FLAGS, 0x00), (REG_OP_MODE, 0x00)])"
proof -
  assume init: "init_result hw" "spi_begin_result hw"
  obtain b v1 v2 v3 m w5 post w7 where
    run: "main hw s0 =
       (if m \<noteq> LORA_STANDBY
        then (1, printf ''There was a problem entering LORA_STANDBY.\<newline>'' [] w5)
        else (0, w7))"
    and c5: "calls (trace w5) =
       ((REG_OP_MODE, 0x00), b) #
       (if b AND 0x80 = 0x00 then [((REG_OP_MODE OR 0x80, FSK_SLEEP), v1)] else []) @
       [((REG_OP_MODE OR 0x80, LORA_SLEEP), v2), ((REG_OP_MODE OR 0x80, LORA_STANDBY), v3),
        ((REG_OP_MODE, 0x00), m)]"
    and a5: "actions (trace w5) =
       Rd REG_OP_MODE #
       (if b AND 0x80 = 0x00 then [Wr REG_OP_MODE FSK_SLEEP] else []) @
       [Wr REG_OP_MODE LORA_SLEEP, Wr REG_OP_MODE LORA_STANDBY, Rd REG_OP_MODE]"
    and c7: "calls (trace w7) = calls (trace w5) @ post"
    and p: "map fst post =
       map (\<lambda>a. (a, 0x00)) (filter (\<lambda>a. a \<noteq> REG_FIFO) register_map) @
       [(REG_FIFO_ADDR_PTR, 0x00), (REG_FIFO_ADDR_PTR OR 0x80, FIFO_TX_BASE_ADDR),
        (REG_FIFO OR 0x80, 0xCC), (REG_OP_MODE OR 0x80, LORA_TX),
        (REG_IRQ_FLAGS, 0x00), (REG_OP_MODE, 0x00)]"
    and a7: "actions (trace w7) =
       actions (trace w5) @ map Rd (filter (\<lambda>a. a \<noteq> REG_FIFO) register_map) @
       [Rd REG_FIFO_ADDR_PTR, Wr REG_FIFO_ADDR_PTR FIFO_TX_BASE_ADDR, Wr REG_FIFO 0xCC,
        Wr REG_OP_MODE LORA_TX, Spin 5000000, Rd REG_IRQ_FLAGS, Rd REG_OP_MODE]"
    by (rule main_run[OF init, of s0])
  have d5: "dropWhile (\<lambda>c. fst c \<noteq> (REG_OP_MODE OR 0x80, LORA_STANDBY)) (calls (trace w5)) =
      [((REG_OP_MODE OR 0x80, LORA_STANDBY), v3), ((REG_OP_MODE, 0x00), m)]"
    by (simp add: c5 reg_defs mode_defs)
  have d7: "dropWhile (\<lambda>c. fst c \<noteq> (REG_OP_MODE OR 0x80, LORA_STANDBY)) (calls (trace w7)) =
      ((REG_OP_MODE OR 0x80, LORA_STANDBY), v3) # ((REG_OP_MODE, 0x00), m) # post"
    by (simp add: c7 c5 reg_defs mode_defs)
  show ?thesis
  proof (cases "m = LORA_STANDBY")
    case True
    with run d7 p show ?thesis by simp
  next
    case False
    with run d5 show ?thesis by simp
  qed
qed

text \<open>
  Both outcomes: the silent peripheral fails the check, the mock passes it.
\<close>

theorem standby_check_witness:
  "init_result silent \<and> spi_begin_result silent \<and> fst (main silent ()) = 1 \<and>
   init_result mock \<and> spi_begin_result mock \<and> fst (main mock reset_regs) = 0 \<and>
   (\<exists>v m post.
      dropWhile (\<lambda>c. fst c \<noteq> (REG_OP_MODE OR 0x80, LORA_STANDBY))
         (calls (trace (snd (main silent ())))) =
       ((REG_OP_MODE OR 0x80, LORA_STANDBY), v) # ((REG_OP_MODE, 0x00), m) # post \<and>
      m \<noteq> LORA_STANDBY \<and> post = []) \<and>
   (\<exists>v post.
      dropWhile (\<lambda>c. fst c \<noteq> (REG_OP_MODE OR 0x80, LORA_STANDBY))
         (calls (trace (snd (main mock reset_regs)))) =
       ((REG_OP_MODE OR 0x80, LORA_STANDBY), v) # ((REG_OP_MODE, 0x00), LORA_STANDBY) # post \<and>
      post \<noteq> [])"
proof -
  have i1: "init_result silent" and i2: "spi_begin_result silent"
    and i3: "init_result mock" and i4: "spi_begin_result mock"
    by simp_all
  obtain v m post where
    d: "dropWhile (\<lambda>c. fst c \<noteq> (REG_OP_MODE OR 0x80, LORA_STANDBY))
         (calls (trace (snd (main silent ())))) =
       ((REG_OP_MODE OR 0x80, LORA_STANDBY), v) # ((REG_OP_MODE, 0x00), m) # post \<and>
     (fst (main silent ()) = 1) = (m \<noteq> LORA_STANDBY) \<and>
     (if m \<noteq> LORA_STANDBY
      then post = [] \<and>
           last (trace (snd (main silent ()))) =
             Printf ''There was a problem entering LORA_STANDBY.\<newline>'' []
      else fst (main silent ()) = 0 \<and>
           map fst post =
             map (\<lambda>a. (a, 0x00)) (filter (\<lambda>a. a \<noteq> REG_FIFO) register_map) @
             [(REG_FIFO_ADDR_PTR, 0x00), (REG_FIFO_ADDR_PTR OR 0x80, FIFO_TX_BASE_ADDR),
              (REG_FIFO OR 0x80, 0xCC), (REG_OP_MODE OR 0x80, LORA_TX),
              (REG_IRQ_FLAGS, 0x00), (REG_OP_MODE, 0x00)])"
    using standby_check[OF i1 i2, of "()"] by (elim exE) (rule that)
  from d main_silent have ms: "m \<noteq> LORA_STANDBY" by simp
  with d have "post = []" by simp
  with d ms have s: "\<exists>v m post.
      dropWhile (\<lambda>c. fst c \<noteq> (REG_OP_MODE OR 0x80, LORA_STANDBY))
         (calls (trace (snd (main silent ())))) =
       ((REG_OP_MODE OR 0x80, LORA_STANDBY), v) # ((REG_OP_MODE, 0x00), m) # post \<and>
      m \<noteq> LORA_STANDBY \<and> post = []"
    by (intro exI[of _ v] exI[of _ m] exI[of _ post]) simp
  obtain v' m' post' where
    d': "dropWhile (\<lambda>c. fst c \<noteq> (REG_OP_MODE OR 0x80, LORA_STANDBY))
         (calls (trace (snd (main mock reset_regs)))) =
       ((REG_OP_MODE OR 0x80, LORA_STANDBY), v') # ((REG_OP_MODE, 0x00), m') # post' \<and>
     (fst (main mock reset_regs) = 1) = (m' \<noteq> LORA_STANDBY) \<and>
     (if m' \<noteq> LORA_STANDBY
      then post' = [] \<and>
           last (trace (snd (main mock reset_regs))) =
             Printf ''There was a problem entering LORA_STANDBY.\<newline>'' []
      else fst (main mock reset_regs) = 0 \<and>
           map fst post' =
             map (\<lambda>a. (a, 0x00)) (filter (\<lambda>a. a \<noteq> REG_FIFO) register_map) @
             [(REG_FIFO_ADDR_PTR, 0x00), (REG_FIFO_ADDR_PTR OR 0x80, FIFO_TX_BASE_ADDR),
              (REG_FIFO OR 0x80, 0xCC), (REG_OP_MODE OR 0x80, LORA_TX),
              (REG_IRQ_FLAGS, 0x00), (REG_OP_MODE, 0x00)])"
    using standby_check[OF i3 i4, of reset_regs] by (elim exE) (rule that)
  from d' main_mock_exit[of reset_regs] have mm: "m' = LORA_STANDBY" by simp
  with d' have "map fst post' \<noteq> []" by simp
  then have "post' \<noteq> []" by simp
  with d' mm have k: "\<exists>v post.
      dropWhile (\<lambda>c. fst c \<noteq> (REG_OP_MODE OR 0x80, LORA_STANDBY))
         (calls (trace (snd (main mock reset_regs)))) =
       ((REG_OP_MODE OR 0x80, LORA_STANDBY), v) # ((REG_OP_MODE, 0x00), LORA_STANDBY) # post \<and>
      post \<noteq> []"
    by (intro exI[of _ v'] exI[of _ post']) simp
  from i1 i2 i3 i4 main_silent main_mock_exit[of reset_regs] s k show ?thesis by (intro conjI)
qed

text \<open>
  Claim C5. Once the library is initialised, the first transfer of the run is the read of
  the operating-mode register, returning \<open>b\<close>. If bit 7 of \<open>b\<close> is clear, the next
  action is the write of the legacy sleep value \<open>FSK_SLEEP\<close> (0x08) to that register,
  ahead of every LoRa mode write; if bit 7 is set, that write is not issued anywhere in the
  run. In both cases the writes of \<open>LORA_SLEEP\<close> (0x88) and then \<open>LORA_STANDBY\<close>
  (0x89) follow.
\<close>

theorem mode_guard:
  "init_result hw \<Longrightarrow> spi_begin_result hw \<Longrightarrow>
   \<exists>b cs rest.
     calls (trace (snd (main hw s0))) = ((REG_OP_MODE, 0x00), b) # cs \<and>
     actions (trace (snd (main hw s0))) =
       Rd REG_OP_MODE #
       (if bit b 7 then [] else [Wr REG_OP_MODE FSK_SLEEP]) @
       [Wr REG_OP_MODE LORA_SLEEP, Wr REG_OP_MODE LORA_STANDBY] @ rest \<and>
     (bit b 7 \<longrightarrow> Wr REG_OP_MODE FSK_SLEEP \<notin> set (actions (trace (snd (main hw s0)))))"
proof -
  assume init: "init_result hw" "spi_begin_result hw"
  obtain b v1 v2 v3 m w5 post w7 where
    run: "main hw s0 =
       (if m \<noteq> LORA_STANDBY
        then (1, printf ''There was a problem entering LORA_STANDBY.\<newline>'' [] w5)
        else (0, w7))"
    and c5: "calls (trace w5) =
       ((REG_OP_MODE, 0x00), b) #
       (if b AND 0x80 = 0x00 then [((REG_OP_MODE OR 0x80, FSK_SLEEP), v1)] else []) @
       [((REG_OP_MODE OR 0x80, LORA_SLEEP), v2), ((REG_OP_MODE OR 0x80, LORA_STANDBY), v3),
        ((REG_OP_MODE, 0x00), m)]"
    and a5: "actions (trace w5) =
       Rd REG_OP_MODE #
       (if b AND 0x80 = 0x00 then [Wr REG_OP_MODE FSK_SLEEP] else []) @
       [Wr REG_OP_MODE LORA_SLEEP, Wr REG_OP_MODE LORA_STANDBY, Rd REG_OP_MODE]"
    and c7: "calls (trace w7) = calls (trace w5) @ post"
    and p: "map fst post =
       map (\<lambda>a. (a, 0x00)) (filter (\<lambda>a. a \<noteq> REG_FIFO) register_map) @
       [(REG_FIFO_ADDR_PTR, 0x00), (REG_FIFO_ADDR_PTR OR 0x80, FIFO_TX_BASE_ADDR),
        (REG_FIFO OR 0x80, 0xCC), (REG_OP_MODE OR 0x80, LORA_TX),
        (REG_IRQ_FLAGS, 0x00), (REG_OP_MODE, 0x00)]"
    and a7: "actions (trace w7) =
       actions (trace w5) @ map Rd (filter (\<lambda>a. a \<noteq> REG_FIFO) register_map) @
       [Rd REG_FIFO_ADDR_PTR, Wr REG_FIFO_ADDR_PTR FIFO_TX_BASE_ADDR, Wr REG_FIFO 0xCC,
        Wr REG_OP_MODE LORA_TX, Spin 5000000, Rd REG_IRQ_FLAGS, Rd REG_OP_MODE]"
    by (rule main_run[OF init, of s0])
  define tr where "tr = trace (snd (main hw s0))"
  define tail where "tail = (if m \<noteq> LORA_STANDBY then [] else
       map Rd (filter (\<lambda>a. a \<noteq> REG_FIFO) register_map) @
       [Rd REG_FIFO_ADDR_PTR, Wr REG_FIFO_ADDR_PTR FIFO_TX_BASE_ADDR, Wr REG_FIFO 0xCC,
        Wr REG_OP_MODE LORA_TX, Spin 5000000, Rd REG_IRQ_FLAGS, Rd REG_OP_MODE])"
  have c: "calls tr = calls (trace w5) @ (if m \<noteq> LORA_STANDBY then [] else post)"
    by (simp add: tr_def run c7)
  have a: "actions tr = actions (trace w5) @ tail"
    by (simp add: tr_def tail_def run a7)
  have 1: "calls tr = ((REG_OP_MODE, 0x00), b) #
       ((if b AND 0x80 = 0x00 then [((REG_OP_MODE OR 0x80, FSK_SLEEP), v1)] else []) @
       [((REG_OP_MODE OR 0x80, LORA_SLEEP), v2), ((REG_OP_MODE OR 0x80, LORA_STANDBY), v3),
        ((REG_OP_MODE, 0x00), m)] @ (if m \<noteq> LORA_STANDBY then [] else post))"
    by (simp add: c c5)
  have 2: "actions tr =
       Rd REG_OP_MODE #
       (if bit b 7 then [] else [Wr REG_OP_MODE FSK_SLEEP]) @
       [Wr REG_OP_MODE LORA_SLEEP, Wr REG_OP_MODE LORA_STANDBY] @ (Rd REG_OP_MODE # tail)"
    by (simp add: a a5 and_x80_eq_0)
  have nt: "Wr REG_OP_MODE FSK_SLEEP \<notin> set tail"
    by (simp add: tail_def register_map_def reg_defs mode_defs)
  have 3: "bit b 7 \<longrightarrow> Wr REG_OP_MODE FSK_SLEEP \<notin> set (actions tr)"
    using nt by (simp add: 2) (simp add: reg_defs mode_defs)
  from 1 2 3 show ?thesis unfolding tr_def by (intro exI conjI)
qed

text \<open>
  Both branches against the mock: booting with 0x0F in the operating-mode register, and
  booting with 0x8F.
\<close>

theorem mode_guard_witness:
  "init_result mock \<and> spi_begin_result mock \<and>
   \<not> bit (reset_regs REG_OP_MODE) 7 \<and> bit (lora_regs REG_OP_MODE) 7 \<and>
   take 4 (actions (trace (snd (main mock reset_regs)))) =
     [Rd 0x01, Wr 0x01 0x08, Wr 0x01 0x88, Wr 0x01 0x89] \<and>
   take 3 (actions (trace (snd (main mock lora_regs)))) =
     [Rd 0x01, Wr 0x01 0x88, Wr 0x01 0x89] \<and>
   Wr 0x01 0x08 \<notin> set (actions (trace (snd (main mock lora_regs))))"
proof -
  have i: "init_result mock" "spi_begin_result mock" by simp_all
  obtain b cs rest where
    g: "calls (trace (snd (main mock reset_regs))) = ((REG_OP_MODE, 0x00), b) # cs \<and>
     actions (trace (snd (main mock reset_regs))) =
       Rd REG_OP_MODE #
       (if bit b 7 then [] else [Wr REG_OP_MODE FSK_SLEEP]) @
       [Wr REG_OP_MODE LORA_SLEEP, Wr REG_OP_MODE LORA_STANDBY] @ rest \<and>
     (bit b 7 \<longrightarrow> Wr REG_OP_MODE FSK_SLEEP \<notin> set (actions (trace (snd (main mock reset_regs)))))"
    using mode_guard[OF i, of reset_regs] by (elim exE) (rule that)
  obtain cs0 where "calls (trace (snd (main mock reset_regs))) =
      ((REG_OP_MODE, 0x00), reset_regs REG_OP_MODE) # cs0"
    using main_mock_boot[of reset_regs] by (elim exE) (rule that)
  with g have b: "b = 0x0F" by (simp add: boot_modes)
  from g have 1: "take 4 (actions (trace (snd (main mock reset_regs)))) =
     [Rd 0x01, Wr 0x01 0x08, Wr 0x01 0x88, Wr 0x01 0x89]"
    by (simp add: b bit7_examples reg_defs mode_defs)
  obtain b' cs' rest' where
    g': "calls (trace (snd (main mock lora_regs))) = ((REG_OP_MODE, 0x00), b') # cs' \<and>
     actions (trace (snd (main mock lora_regs))) =
       Rd REG_OP_MODE #
       (if bit b' 7 then [] else [Wr REG_OP_MODE FSK_SLEEP]) @
       [Wr REG_OP_MODE LORA_SLEEP, Wr REG_OP_MODE LORA_STANDBY] @ rest' \<and>
     (bit b' 7 \<longrightarrow> Wr REG_OP_MODE FSK_SLEEP \<notin> set (actions (trace (snd (main mock lora_regs)))))"
    using mode_guard[OF i, of lora_regs] by (elim exE) (rule that)
  obtain cs1 where "calls (trace (snd (main mock lora_regs))) =
      ((REG_OP_MODE, 0x00), lora_regs REG_OP_MODE) # cs1"
    using main_mock_boot[of lora_regs] by (elim exE) (rule that)
  with g' have b': "b' = 0x8F" by (simp add: boot_modes)
  from g' have 2: "take 3 (actions (trace (snd (main mock lora_regs)))) =
     [Rd 0x01, Wr 0x01 0x88, Wr 0x01 0x89]"
    by (simp add: b' bit7_examples reg_defs mode_defs)
  from g' have "bit b' 7 \<longrightarrow>
      Wr REG_OP_MODE FSK_SLEEP \<notin> set (actions (trace (snd (main mock lora_regs))))"
    by (rule conjunct2[THEN conjunct2])
  then have "Wr REG_OP_MODE FSK_SLEEP \<notin> set (actions (trace (snd (main mock lora_regs))))"
    by (simp add: b' bit7_examples)
  then have 3: "Wr 0x01 0x08 \<notin> set (actions (trace (snd (main mock lora_regs))))"
    by (simp add: reg_defs mode_defs)
  from i 1 2 3 show ?thesis by (simp add: boot_modes bit7_examples)
qed

text \<open>
  Claim C6. \<open>diagnose\<close> issues, against any peripheral and from any state, the reads of
  the defined register addresses other than \<open>REG_FIFO\<close> (0x00), in the order of their
  definition, and nothing else. The defined addresses are pairwise distinct, so each is
  read exactly once. Each has bit 7 clear, so every transfer carries the read encoding;
  against the mock, no register changes.
\<close>

theorem diagnose_reads:
  "actions (trace (diagnose hw w)) =
     actions (trace w) @ map Rd (filter (\<lambda>a. a \<noteq> REG_FIFO) register_map) \<and>
   distinct register_map \<and>
   REG_FIFO = 0x00 \<and>
   list_all (\<lambda>a. \<not> bit a 7) register_map \<and>
   device (diagnose mock m) = device m"
proof -
  have "list_all (\<lambda>a. \<not> bit a 7) register_map"
    using register_map_7bit by (simp add: le_x7F_iff)
  then show ?thesis
    by (simp add: actions_diagnose distinct_register_map device_diagnose_mock REG_FIFO_def)
qed

text \<open>
  The 33 reads, by address, against the mock.
\<close>

theorem diagnose_reads_witness:
  "actions (trace (diagnose mock \<lparr>device = reset_regs, trace = []\<rparr>)) =
     map Rd [0x01, 0x06, 0x07, 0x08, 0x09, 0x0A, 0x0B, 0x0C, 0x0D, 0x0E, 0x0F, 0x10, 0x11,
             0x12, 0x13, 0x16, 0x17, 0x18, 0x19, 0x1A, 0x1B, 0x1C, 0x1D, 0x1E, 0x20, 0x21,
             0x22, 0x23, 0x24, 0x26, 0x31, 0x37, 0x39] \<and>
   device (diagnose mock \<lparr>device = reset_regs, trace = []\<rparr>) = reset_regs"
  using diagnose_reads[of mock "\<lparr>device = reset_regs, trace = []\<rparr>"
      "\<lparr>device = reset_regs, trace = []\<rparr>"]
  by (simp add: register_map_def reg_defs)

text \<open>
  Claim C7. A run that exits with status 0 ends with these actions, in this order: the
  read of the FIFO address pointer, the write of 0x80 to it, the write of 0xCC to the FIFO
  register, the write of \<open>LORA_TX\<close> (0x8B) to the operating-mode register, the delay
  loop run to its end (5000000 rounds), the read of the IRQ flags register and the read of
  the operating-mode register. Neither the transmit write nor a delay loop occurs earlier
  in the run, so nothing stands between that write and the end of the loop.
\<close>

theorem transmit_test_order:
  "fst (main hw s0) = 0 \<Longrightarrow>
   \<exists>pre.
     actions (trace (snd (main hw s0))) =
       pre @
       [Rd REG_FIFO_ADDR_PTR, Wr REG_FIFO_ADDR_PTR FIFO_TX_BASE_ADDR, Wr REG_FIFO 0xCC,
        Wr REG_OP_MODE LORA_TX, Spin 5000000, Rd REG_IRQ_FLAGS, Rd REG_OP_MODE] \<and>
     Wr REG_OP_MODE LORA_TX \<notin> set pre \<and>
     (\<forall>i. Spin i \<notin> set pre) \<and>
     FIFO_TX_BASE_ADDR = 0x80 \<and> LORA_TX = 0x8B"
proof -
  assume ok: "fst (main hw s0) = 0"
  then have init: "init_result hw" "spi_begin_result hw"
    using main_init_failed[of hw s0] by auto
  obtain b m cs where
    c: "calls (trace (snd (main hw s0))) = ((REG_OP_MODE, 0x00), b) # cs"
    and e: "fst (main hw s0) = (if m \<noteq> LORA_STANDBY then 1 else 0)"
    and d: "\<exists>v post. dropWhile (\<lambda>c. fst c \<noteq> (REG_OP_MODE OR 0x80, LORA_STANDBY))
           (calls (trace (snd (main hw s0)))) =
         ((REG_OP_MODE OR 0x80, LORA_STANDBY), v) # ((REG_OP_MODE, 0x00), m) # post"
    and a: "actions (trace (snd (main hw s0))) =
       Rd REG_OP_MODE #
       (if bit b 7 then [] else [Wr REG_OP_MODE FSK_SLEEP]) @
       [Wr REG_OP_MODE LORA_SLEEP, Wr REG_OP_MODE LORA_STANDBY, Rd REG_OP_MODE] @
       (if m \<noteq> LORA_STANDBY then [] else
          map Rd (filter (\<lambda>a. a \<noteq> REG_FIFO) register_map) @
          [Rd REG_FIFO_ADDR_PTR, Wr REG_FIFO_ADDR_PTR FIFO_TX_BASE_ADDR, Wr REG_FIFO 0xCC,
           Wr REG_OP_MODE LORA_TX, Spin 5000000, Rd REG_IRQ_FLAGS, Rd REG_OP_MODE])"
    by (rule main_actions[OF init, of s0])
  from e ok have m: "m = LORA_STANDBY" by (simp split: if_splits)
  define pre where "pre =
       Rd REG_OP_MODE #
       (if bit b 7 then [] else [Wr REG_OP_MODE FSK_SLEEP]) @
       [Wr REG_OP_MODE LORA_SLEEP, Wr REG_OP_MODE LORA_STANDBY, Rd REG_OP_MODE] @
       map Rd (filter (\<lambda>a. a \<noteq> REG_FIFO) register_map)"
  have 1: "actions (trace (snd (main hw s0))) =
       pre @
       [Rd REG_FIFO_ADDR_PTR, Wr REG_FIFO_ADDR_PTR FIFO_TX_BASE_ADDR, Wr REG_FIFO 0xCC,
        Wr REG_OP_MODE LORA_TX, Spin 5000000, Rd REG_IRQ_FLAGS, Rd REG_OP_MODE]"
    by (simp add: a m pre_def)
  have 2: "Wr REG_OP_MODE LORA_TX \<notin> set pre"
    by (simp add: pre_def register_map_def reg_defs mode_defs)
  have 3: "\<forall>i. Spin i \<notin> set pre"
    by (simp add: pre_def register_map_def reg_defs mode_defs)
  from 1 2 3 show ?thesis by (intro exI[of _ pre]) (simp add: mode_defs)
qed

text \<open>
  The end of the run against the mock, byte by byte.
\<close>

theorem transmit_test_order_witness:
  "fst (main mock reset_regs) = 0 \<and>
   (\<exists>pre. actions (trace (snd (main mock reset_regs))) =
      pre @ [Exchange (0x0D, 0x00) 2, Exchange (0x8D, 0x80) 2, Exchange (0x80, 0xCC) 2,
             Exchange (0x81, 0x8B) 2, Spin 5000000, Exchange (0x12, 0x00) 2,
             Exchange (0x01, 0x00) 2])"
proof -
  have ok: "fst (main mock reset_regs) = 0" by (rule main_mock_exit)
  obtain pre where
    "actions (trace (snd (main mock reset_regs))) =
       pre @
       [Rd REG_FIFO_ADDR_PTR, Wr REG_FIFO_ADDR_PTR FIFO_TX_BASE_ADDR, Wr REG_FIFO 0xCC,
        Wr REG_OP_MODE LORA_TX, Spin 5000000, Rd REG_IRQ_FLAGS, Rd REG_OP_MODE] \<and>
     Wr REG_OP_MODE LORA_TX \<notin> set pre \<and>
     (\<forall>i. Spin i \<notin> set pre) \<and>
     FIFO_TX_BASE_ADDR = 0x80 \<and> LORA_TX = 0x8B"
    using transmit_test_order[OF ok] by (elim exE) (rule that)
  then have "actions (trace (snd (main mock reset_regs))) =
      pre @ [Exchange (0x0D, 0x00) 2, Exchange (0x8D, 0x80) 2, Exchange (0x80, 0xCC) 2,
             Exchange (0x81, 0x8B) 2, Spin 5000000, Exchange (0x12, 0x00) 2,
             Exchange (0x01, 0x00) 2]"
    by (simp add: reg_defs mode_defs)
  then have "\<exists>pre. actions (trace (snd (main mock reset_regs))) =
      pre @ [Exchange (0x0D, 0x00) 2, Exchange (0x8D, 0x80) 2, Exchange (0x80, 0xCC) 2,
             Exchange (0x81, 0x8B) 2, Spin 5000000, Exchange (0x12, 0x00) 2,
             Exchange (0x01, 0x00) 2]"
    by (rule exI)
  with ok show ?thesis by (rule conjI)
qed

text \<open>
  Claim C8. Take two runs, against any two peripherals (of any two state types), both
  initialised and both answering the read-back after the LoRa standby write with 0x89.
  Both exit with status 0, and from the standby write on they perform the same actions,
  whatever either peripheral returns after the check. Before it the two runs differ at
  most by the legacy sleep write of claim C5: with that write left out the whole action
  sequences are equal, and they are equal as they stand when the two boot-mode reads agree
  in bit 7.
\<close>

theorem post_standby_independent:
  fixes hw1 :: "'s bcm2835" and hw2 :: "'t bcm2835"
  shows "init_result hw1 \<Longrightarrow> spi_begin_result hw1 \<Longrightarrow>
   init_result hw2 \<Longrightarrow> spi_begin_result hw2 \<Longrightarrow>
   \<exists>v post. dropWhile (\<lambda>c. fst c \<noteq> (REG_OP_MODE OR 0x80, LORA_STANDBY))
       (calls (trace (snd (main hw1 s1)))) =
     ((REG_OP_MODE OR 0x80, LORA_STANDBY), v) # ((REG_OP_MODE, 0x00), LORA_STANDBY) # post \<Longrightarrow>
   \<exists>v post. dropWhile (\<lambda>c. fst c \<noteq> (REG_OP_MODE OR 0x80, LORA_STANDBY))
       (calls (trace (snd (main hw2 s2)))) =
     ((REG_OP_MODE OR 0x80, LORA_STANDBY), v) # ((REG_OP_MODE, 0x00), LORA_STANDBY) # post \<Longrightarrow>
   fst (main hw1 s1) = 0 \<and> fst (main hw2 s2) = 0 \<and>
   dropWhile (\<lambda>a. a \<noteq> Wr REG_OP_MODE LORA_STANDBY) (actions (trace (snd (main hw1 s1)))) =
     dropWhile (\<lambda>a. a \<noteq> Wr REG_OP_MODE LORA_STANDBY) (actions (trace (snd (main hw2 s2)))) \<and>
   filter (\<lambda>a. a \<noteq> Wr REG_OP_MODE FSK_SLEEP) (actions (trace (snd (main hw1 s1)))) =
     filter (\<lambda>a. a \<noteq> Wr REG_OP_MODE FSK_SLEEP) (actions (trace (snd (main hw2 s2)))) \<and>
   (bit (snd (hd (calls (trace (snd (main hw1 s1)))))) 7 =
    bit (snd (hd (calls (trace (snd (main hw2 s2)))))) 7 \<longrightarrow>
      actions (trace (snd (main hw1 s1))) = actions (trace (snd (main hw2 s2))))"
proof -
  assume i1: "init_result hw1" "spi_begin_result hw1"
    and i2: "init_result hw2" "spi_begin_result hw2"
    and p1: "\<exists>v post. dropWhile (\<lambda>c. fst c \<noteq> (REG_OP_MODE OR 0x80, LORA_STANDBY))
       (calls (trace (snd (main hw1 s1)))) =
     ((REG_OP_MODE OR 0x80, LORA_STANDBY), v) # ((REG_OP_MODE, 0x00), LORA_STANDBY) # post"
    and p2: "\<exists>v post. dropWhile (\<lambda>c. fst c \<noteq> (REG_OP_MODE OR 0x80, LORA_STANDBY))
       (calls (trace (snd (main hw2 s2)))) =
     ((REG_OP_MODE OR 0x80, LORA_STANDBY), v) # ((REG_OP_MODE, 0x00), LORA_STANDBY) # post"
  obtain b1 cs1 where
    c1: "calls (trace (snd (main hw1 s1))) = ((REG_OP_MODE, 0x00), b1) # cs1"
    and e1: "fst (main hw1 s1) = 0"
    and a1: "actions (trace (snd (main hw1 s1))) =
       Rd REG_OP_MODE #
       (if bit b1 7 then [] else [Wr REG_OP_MODE FSK_SLEEP]) @
       [Wr REG_OP_MODE LORA_SLEEP, Wr REG_OP_MODE LORA_STANDBY, Rd REG_OP_MODE] @
       map Rd (filter (\<lambda>a. a \<noteq> REG_FIFO) register_map) @
       [Rd REG_FIFO_ADDR_PTR, Wr REG_FIFO_ADDR_PTR FIFO_TX_BASE_ADDR, Wr REG_FIFO 0xCC,
        Wr REG_OP_MODE LORA_TX, Spin 5000000, Rd REG_IRQ_FLAGS, Rd REG_OP_MODE]"
    by (rule main_passed[OF i1 p1])
  obtain b2 cs2 where
    c2: "calls (trace (snd (main hw2 s2))) = ((REG_OP_MODE, 0x00), b2) # cs2"
    and e2: "fst (main hw2 s2) = 0"
    and a2: "actions (trace (snd (main hw2 s2))) =
       Rd REG_OP_MODE #
       (if bit b2 7 then [] else [Wr REG_OP_MODE FSK_SLEEP]) @
       [Wr REG_OP_MODE LORA_SLEEP, Wr REG_OP_MODE LORA_STANDBY, Rd REG_OP_MODE] @
       map Rd (filter (\<lambda>a. a \<noteq> REG_FIFO) register_map) @
       [Rd REG_FIFO_ADDR_PTR, Wr REG_FIFO_ADDR_PTR FIFO_TX_BASE_ADDR, Wr REG_FIFO 0xCC,
        Wr REG_OP_MODE LORA_TX, Spin 5000000, Rd REG_IRQ_FLAGS, Rd REG_OP_MODE]"
    by (rule main_passed[OF i2 p2])
  have d: "dropWhile (\<lambda>a. a \<noteq> Wr REG_OP_MODE LORA_STANDBY) (actions (trace (snd (main hw1 s1)))) =
     dropWhile (\<lambda>a. a \<noteq> Wr REG_OP_MODE LORA_STANDBY) (actions (trace (snd (main hw2 s2))))"
    unfolding a1 a2 actions_from_standby ..
  have f: "filter (\<lambda>a. a \<noteq> Wr REG_OP_MODE FSK_SLEEP) (actions (trace (snd (main hw1 s1)))) =
     filter (\<lambda>a. a \<noteq> Wr REG_OP_MODE FSK_SLEEP) (actions (trace (snd (main hw2 s2))))"
    unfolding a1 a2 actions_but_fsk_sleep ..
  have w: "bit (snd (hd (calls (trace (snd (main hw1 s1)))))) 7 =
    bit (snd (hd (calls (trace (snd (main hw2 s2)))))) 7 \<longrightarrow>
      actions (trace (snd (main hw1 s1))) = actions (trace (snd (main hw2 s2)))"
  proof
    assume "bit (snd (hd (calls (trace (snd (main hw1 s1)))))) 7 =
      bit (snd (hd (calls (trace (snd (main hw2 s2)))))) 7"
    then have "bit b1 7 = bit b2 7" by (simp add: c1 c2)
    then show "actions (trace (snd (main hw1 s1))) = actions (trace (snd (main hw2 s2)))"
      unfolding a1 a2 by simp
  qed
  from e1 e2 d f w show ?thesis by (intro conjI)
qed

text \<open>
  Two runs against the mock, from different register contents.
\<close>

theorem post_standby_independent_witness:
  "init_result mock \<and> spi_begin_result mock \<and>
   (\<exists>v post. dropWhile (\<lambda>c. fst c \<noteq> (REG_OP_MODE OR 0x80, LORA_STANDBY))
       (calls (trace (snd (main mock reset_regs)))) =
     ((REG_OP_MODE OR 0x80, LORA_STANDBY), v) # ((REG_OP_MODE, 0x00), LORA_STANDBY) # post) \<and>
   (\<exists>v post. dropWhile (\<lambda>c. fst c \<noteq> (REG_OP_MODE OR 0x80, LORA_STANDBY))
       (calls (trace (snd (main mock blank_regs)))) =
     ((REG_OP_MODE OR 0x80, LORA_STANDBY), v) # ((REG_OP_MODE, 0x00), LORA_STANDBY) # post) \<and>
   bit (snd (hd (calls (trace (snd (main mock reset_regs)))))) 7 =
     bit (snd (hd (calls (trace (snd (main mock blank_regs)))))) 7 \<and>
   fst (main mock reset_regs) = 0 \<and> fst (main mock blank_regs) = 0 \<and>
   actions (trace (snd (main mock reset_regs))) = actions (trace (snd (main mock blank_regs)))"
proof -
  have i: "init_result mock" "spi_begin_result mock" by simp_all
  note p1 = main_mock_passed[of reset_regs]
  note p2 = main_mock_passed[of blank_regs]
  obtain cs1 where c1: "calls (trace (snd (main mock reset_regs))) =
      ((REG_OP_MODE, 0x00), reset_regs REG_OP_MODE) # cs1"
    using main_mock_boot[of reset_regs] by (elim exE) (rule that)
  obtain cs2 where c2: "calls (trace (snd (main mock blank_regs))) =
      ((REG_OP_MODE, 0x00), blank_regs REG_OP_MODE) # cs2"
    using main_mock_boot[of blank_regs] by (elim exE) (rule that)
  have e: "bit (snd (hd (calls (trace (snd (main mock reset_regs)))))) 7 =
     bit (snd (hd (calls (trace (snd (main mock blank_regs)))))) 7"
    by (simp add: c1 c2 boot_modes bit7_examples)
  from post_standby_independent[OF i i p1 p2] e
  have "fst (main mock reset_regs) = 0 \<and> fst (main mock blank_regs) = 0 \<and>
   actions (trace (snd (main mock reset_regs))) = actions (trace (snd (main mock blank_regs)))"
    by (elim conjE) simp
  with i p1 p2 e show ?thesis by (intro conjI) simp_all
qed

text \<open>
  Claim C9. For every byte \<open>a\<close>, with no bound on it, \<open>read_reg a\<close> makes the one
  transfer with \<open>a\<close> itself as the first byte sent and returns the second byte received;
  the function has no error result. When bit 7 of \<open>a\<close> is set, that transfer is the one
  \<open>write_reg (a AND 0x7F) 0x00\<close> makes: same bytes sent, same value returned, same
  outside state afterwards. Against the mock it overwrites register \<open>a AND 0x7F\<close> with
  0x00, so it is not a read.
\<close>

theorem read_reg_unmasked:
  "(\<exists>g. transfernb hw (device w) (a, 0x00) (0x00, 0x00) 2 =
           ((g, fst (read_reg hw a w)), device (snd (read_reg hw a w))) \<and>
        trace (snd (read_reg hw a w)) =
           trace w @
           [Transfer (a, 0x00) 2 (g, fst (read_reg hw a w)),
            Printf ''Read value 0x%02X from register 0x%02X.\<newline>''
              [fst (read_reg hw a w), a]]) \<and>
   (bit a 7 \<longrightarrow>
      a = (a AND 0x7F) OR 0x80 \<and>
      fst (read_reg hw a w) = fst (write_reg hw (a AND 0x7F) 0x00 w) \<and>
      device (snd (read_reg hw a w)) = device (snd (write_reg hw (a AND 0x7F) 0x00 w)) \<and>
      calls (trace (snd (read_reg hw a w))) =
        calls (trace (snd (write_reg hw (a AND 0x7F) 0x00 w))) \<and>
      actions (trace (snd (read_reg hw a w))) = actions (trace w) @ [Wr (a AND 0x7F) 0x00] \<and>
      device (snd (read_reg mock a m)) = (device m)(a AND 0x7F := 0x00))"
proof -
  have ex: "\<exists>g. transfernb hw (device w) (a, 0x00) (0x00, 0x00) 2 =
           ((g, fst (read_reg hw a w)), device (snd (read_reg hw a w))) \<and>
        trace (snd (read_reg hw a w)) =
           trace w @
           [Transfer (a, 0x00) 2 (g, fst (read_reg hw a w)),
            Printf ''Read value 0x%02X from register 0x%02X.\<newline>''
              [fst (read_reg hw a w), a]]"
    using read_reg_transfer[of hw w a] trace_read_reg[of hw a w] by blast
  have wr: "bit a 7 \<longrightarrow>
      a = (a AND 0x7F) OR 0x80 \<and>
      fst (read_reg hw a w) = fst (write_reg hw (a AND 0x7F) 0x00 w) \<and>
      device (snd (read_reg hw a w)) = device (snd (write_reg hw (a AND 0x7F) 0x00 w)) \<and>
      calls (trace (snd (read_reg hw a w))) =
        calls (trace (snd (write_reg hw (a AND 0x7F) 0x00 w))) \<and>
      actions (trace (snd (read_reg hw a w))) = actions (trace w) @ [Wr (a AND 0x7F) 0x00] \<and>
      device (snd (read_reg mock a m)) = (device m)(a AND 0x7F := 0x00)"
  proof
    assume hi: "bit a 7"
    have e: "(a AND 0x7F) OR 0x80 = a" by (rule and_x7F_or_x80_id[OF hi])
    show "a = (a AND 0x7F) OR 0x80 \<and>
      fst (read_reg hw a w) = fst (write_reg hw (a AND 0x7F) 0x00 w) \<and>
      device (snd (read_reg hw a w)) = device (snd (write_reg hw (a AND 0x7F) 0x00 w)) \<and>
      calls (trace (snd (read_reg hw a w))) =
        calls (trace (snd (write_reg hw (a AND 0x7F) 0x00 w))) \<and>
      actions (trace (snd (read_reg hw a w))) = actions (trace w) @ [Wr (a AND 0x7F) 0x00] \<and>
      device (snd (read_reg mock a m)) = (device m)(a AND 0x7F := 0x00)"
      using hi by (simp add: read_reg_mock) (simp add: read_reg_unfold write_reg_unfold e)
  qed
  from ex wr show ?thesis by (rule conjI)
qed

text \<open>
  \<open>read_reg 0x81\<close> against the mock: it returns the 0x0F of register 0x01 and leaves
  0x00 there.
\<close>

theorem read_reg_unmasked_witness:
  "bit (0x81 :: byte) 7 \<and>
   fst (read_reg mock 0x81 \<lparr>device = reset_regs, trace = []\<rparr>) = 0x0F \<and>
   device (snd (read_reg mock 0x81 \<lparr>device = reset_regs, trace = []\<rparr>)) 0x01 = 0x00 \<and>
   actions (trace (snd (read_reg mock 0x81 \<lparr>device = reset_regs, trace = []\<rparr>))) =
     [Wr 0x01 0x00]"
proof -
  have h: "bit (0x81 :: byte) 7" by simp
  have m: "(0x81 :: byte) AND 0x7F = 0x01" by simp
  have r: "reset_regs 0x01 = 0x0F"
    by (simp add: reset_regs_def REG_OP_MODE_def REG_RF_FREQ_MSB_def FSK_CAD_def)
  have v: "fst (read_reg mock 0x81 \<lparr>device = reset_regs, trace = []\<rparr>) = 0x0F"
    by (simp add: read_reg_mock r)
  from read_reg_unmasked[of mock "\<lparr>device = reset_regs, trace = []\<rparr>" "0x81"
      "\<lparr>device = reset_regs, trace = []\<rparr>"] h v
  show ?thesis by (simp add: m r read_reg_mock write_reg_mock)
qed

text \<open>
  Claim C10. For every address \<open>a\<close> and data byte \<open>d\<close>, \<open>write_reg (a OR 0x80) d\<close>
  and \<open>write_reg a d\<close> send the same bytes, return the same value and leave the same
  outside state, since setting bit 7 twice is setting it once. \<open>read_reg\<close> has no such
  protection: when bit 7 of \<open>a\<close> is clear, \<open>read_reg (a OR 0x80)\<close> and \<open>read_reg a\<close>
  send different bytes.
\<close>

theorem write_reg_bit7_idempotent:
  "(a OR 0x80) OR 0x80 = a OR 0x80 \<and>
   fst (write_reg hw (a OR 0x80) d w) = fst (write_reg hw a d w) \<and>
   device (snd (write_reg hw (a OR 0x80) d w)) = device (snd (write_reg hw a d w)) \<and>
   calls (trace (snd (write_reg hw (a OR 0x80) d w))) =
     calls (trace (snd (write_reg hw a d w))) \<and>
   actions (trace (snd (write_reg hw (a OR 0x80) d w))) =
     actions (trace (snd (write_reg hw a d w))) \<and>
   (\<not> bit a 7 \<longrightarrow>
      actions (trace (snd (read_reg hw (a OR 0x80) w))) \<noteq>
      actions (trace (snd (read_reg hw a w))))"
  by (simp add: write_reg_unfold or_x80_neq)

text \<open>
  Register 0x01 against the mock, written through 0x81 and through 0x01.
\<close>

theorem write_reg_bit7_idempotent_witness:
  "\<not> bit (0x01 :: byte) 7 \<and>
   fst (write_reg mock 0x81 0x08 \<lparr>device = reset_regs, trace = []\<rparr>) = 0x0F \<and>
   fst (write_reg mock 0x01 0x08 \<lparr>device = reset_regs, trace = []\<rparr>) = 0x0F \<and>
   actions (trace (snd (write_reg mock 0x81 0x08 \<lparr>device = reset_regs, trace = []\<rparr>))) =
     actions (trace (snd (write_reg mock 0x01 0x08 \<lparr>device = reset_regs, trace = []\<rparr>))) \<and>
   actions (trace (snd (read_reg mock 0x81 \<lparr>device = reset_regs, trace = []\<rparr>))) \<noteq>
     actions (trace (snd (read_reg mock 0x01 \<lparr>device = reset_regs, trace = []\<rparr>)))"
proof -
  have h: "\<not> bit (0x01 :: byte) 7" by simp
  have r: "reset_regs 0x01 = 0x0F"
    by (simp add: reset_regs_def REG_OP_MODE_def REG_RF_FREQ_MSB_def FSK_CAD_def)
  have v: "fst (write_reg mock 0x01 0x08 \<lparr>device = reset_regs, trace = []\<rparr>) = 0x0F"
    by (simp add: write_reg_mock r)
  from write_reg_bit7_idempotent[of "0x01" mock "0x08" "\<lparr>device = reset_regs, trace = []\<rparr>"] h v
  show ?thesis by (simp add: r read_reg_mock write_reg_mock)
qed

end
